theory Spec2Isabelle
  imports Main
begin

section \<open>Values, reverts and checked arithmetic\<close>

text \<open>
  The contracts are Solidity 0.8 code. A \<open>uint256\<close>, an \<open>address\<close> and a \<open>bytes32\<close> are
  modelled as natural numbers (\<open>address(0)\<close> and \<open>bytes32(0)\<close> are \<open>0\<close>); the bound
  \<open>2 ^ 256\<close> is written out wherever the code's arithmetic is checked against it.
  A call either reverts or returns: \<open>Revert msg\<close> is a failed \<open>require\<close> with the
  message of the source, \<open>Panic\<close> the arithmetic panic of a checked operation that leaves
  the range of \<open>uint256\<close>.
\<close>

type_synonym uint256 = nat
type_synonym address = nat
type_synonym bytes32 = nat

datatype revert = Revert string | Panic

definition MAX_UINT256 :: nat where
  "MAX_UINT256 = 2 ^ 256 - 1"

definition require :: "bool \<Rightarrow> string \<Rightarrow> (revert + 'a) \<Rightarrow> revert + 'a" where
  "require c msg k = (if c then k else Inl (Revert msg))"

definition andThen :: "(revert + 'a) \<Rightarrow> ('a \<Rightarrow> revert + 'b) \<Rightarrow> revert + 'b" where
  "andThen r k = (case r of Inl e \<Rightarrow> Inl e | Inr v \<Rightarrow> k v)"

definition checked_add :: "uint256 \<Rightarrow> uint256 \<Rightarrow> revert + uint256" where
  "checked_add a b = (if a + b \<le> MAX_UINT256 then Inr (a + b) else Inl Panic)"

definition checked_sub :: "uint256 \<Rightarrow> uint256 \<Rightarrow> revert + uint256" where
  "checked_sub a b = (if b \<le> a then Inr (a - b) else Inl Panic)"

definition checked_mul :: "uint256 \<Rightarrow> uint256 \<Rightarrow> revert + uint256" where
  "checked_mul a b = (if a * b \<le> MAX_UINT256 then Inr (a * b) else Inl Panic)"


section \<open>RentalUtils\<close>

definition MIN_RENTAL_PERIOD_DAYS :: uint256 where
  "MIN_RENTAL_PERIOD_DAYS = 30"

definition MAX_RENTAL_PERIOD_YEARS :: uint256 where
  "MAX_RENTAL_PERIOD_YEARS = 10"

definition SECONDS_PER_DAY :: uint256 where
  "SECONDS_PER_DAY = 86400"

definition DAYS_PER_YEAR :: uint256 where
  "DAYS_PER_YEAR = 365"

text \<open>
  \<open>validateRentalPeriod\<close> returns the pair (valid, reason). The subtraction is only
  reached when \<open>startDate < endDate\<close> and the product of the two constants is \<open>3650\<close>,
  so no checked operation of the function can panic.
\<close>

definition validateRentalPeriod :: "uint256 \<Rightarrow> uint256 \<Rightarrow> bool \<times> nat" where
  "validateRentalPeriod startDate endDate =
     (if startDate \<ge> endDate then (False, 1)
      else let durationDays = (endDate - startDate) div SECONDS_PER_DAY in
        if durationDays < MIN_RENTAL_PERIOD_DAYS then (False, 2)
        else if durationDays > MAX_RENTAL_PERIOD_YEARS * DAYS_PER_YEAR then (False, 3)
        else (True, 0))"

text \<open>
  \<open>calculateLateFee\<close>: \<open>(amount * annualRate * daysLate) / 36500\<close> with
  \<open>annualRate = 1185\<close>, which the source's comment reads as 11.85%. The two
  multiplications are checked, left to right.
\<close>

definition calculateLateFee :: "uint256 \<Rightarrow> uint256 \<Rightarrow> revert + uint256" where
  "calculateLateFee amount daysLate =
     (let annualRate = 1185 in
      andThen (checked_mul amount annualRate) (\<lambda>p.
      andThen (checked_mul p daysLate) (\<lambda>q.
      Inr (q div 36500))))"



section \<open>The call context\<close>

text \<open>
  What a call reads from outside the three modelled contracts: the caller, the value
  sent, the block's time, the answers of the AccessControlManager
  (\<open>hasPermission(account, keccak256(name))\<close> and \<open>hasRole(account, keccak256(name))\<close>,
  keyed here by the name itself) as its tables stand when the call is made, the hash
  function, and whether a low-level transfer of ether to a recipient goes through.
\<close>

record env =
  msg_sender :: address
  msg_value :: uint256
  block_timestamp :: uint256
  hasPermission :: "address \<Rightarrow> string \<Rightarrow> bool"
  hasRole :: "address \<Rightarrow> string \<Rightarrow> bool"
  keccak256 :: "nat list \<Rightarrow> bytes32"
  transferSucceeds :: bool


section \<open>RentalCore: state\<close>

datatype AgreementStatus = Pending | Active | Terminated | Expired | Disputed

fun uint8_of_status :: "AgreementStatus \<Rightarrow> nat" where
  "uint8_of_status Pending = 0"
| "uint8_of_status Active = 1"
| "uint8_of_status Terminated = 2"
| "uint8_of_status Expired = 3"
| "uint8_of_status Disputed = 4"

text \<open>The conversion \<open>AgreementStatus(status)\<close>; the code only reaches it with \<open>status \<le> 4\<close>.\<close>

definition status_of_uint8 :: "nat \<Rightarrow> AgreementStatus" where
  "status_of_uint8 n =
     (if n = 0 then Pending else if n = 1 then Active else if n = 2 then Terminated
      else if n = 3 then Expired else Disputed)"

record Property =
  owner :: address
  dataHash :: bytes32
  isActive :: bool
  agreementHistory :: "uint256 list"

record Agreement =
  propertyId :: uint256
  landlord :: address
  tenant :: address
  startDate :: uint256
  endDate :: uint256
  rentAmount :: uint256
  depositAmount :: uint256
  status :: AgreementStatus
  termsHash :: bytes32
  amendmentHashes :: "bytes32 list"

text \<open>
  A Solidity mapping is total: a key never written holds the zero value of its type.
  \<open>paused\<close> is the flag of OpenZeppelin's \<open>Pausable\<close>; the two counters are
  OpenZeppelin \<open>Counters\<close>, whose \<open>increment\<close> adds one unchecked.
\<close>

record RentalCore =
  paused :: bool
  propertyIds :: uint256
  agreementIds :: uint256
  properties :: "uint256 \<Rightarrow> Property"
  agreements :: "uint256 \<Rightarrow> Agreement"
  userProperties :: "address \<Rightarrow> uint256 list"
  userAgreements :: "address \<Rightarrow> uint256 list"

definition zeroProperty :: Property where
  "zeroProperty = \<lparr>owner = 0, dataHash = 0, isActive = False, agreementHistory = []\<rparr>"

definition zeroAgreement :: Agreement where
  "zeroAgreement = \<lparr>propertyId = 0, landlord = 0, tenant = 0, startDate = 0, endDate = 0,
     rentAmount = 0, depositAmount = 0, status = Pending, termsHash = 0,
     amendmentHashes = []\<rparr>"

definition deployedRentalCore :: RentalCore where
  "deployedRentalCore = \<lparr>paused = False, propertyIds = 0, agreementIds = 0,
     properties = (\<lambda>_. zeroProperty), agreements = (\<lambda>_. zeroAgreement),
     userProperties = (\<lambda>_. []), userAgreements = (\<lambda>_. [])\<rparr>"

definition increment :: "uint256 \<Rightarrow> uint256" where
  "increment v = (v + 1) mod 2 ^ 256"


section \<open>ComplianceVerifier\<close>

record ComplianceCheck =
  passed :: bool
  checkTimestamp :: uint256
  detailsHash :: bytes32
  verifier :: address

record ComplianceParameters =
  parametersHash :: bytes32
  lastUpdateTime :: uint256
  active :: bool

text \<open>
  The verifier's check table is keyed by entity id and entity type. Its \<open>Pausable\<close> flag
  is left out: the contract has no function that pauses it, so \<open>whenNotPaused\<close> always
  passes. The reentrancy guards of all three contracts are left out as well: calls are
  modelled one after the other, and a guard is open whenever a call comes from outside.
\<close>

record ComplianceVerifier =
  complianceChecks :: "uint256 \<Rightarrow> nat \<Rightarrow> ComplianceCheck"
  currentParameters :: ComplianceParameters

definition AGREEMENT_TYPE :: nat where "AGREEMENT_TYPE = 1"
definition PROPERTY_TYPE :: nat where "PROPERTY_TYPE = 2"
definition LANDLORD_TYPE :: nat where "LANDLORD_TYPE = 3"
definition TENANT_TYPE :: nat where "TENANT_TYPE = 4"

definition deployedComplianceVerifier :: ComplianceVerifier where
  "deployedComplianceVerifier = \<lparr>
     complianceChecks = (\<lambda>_ _. \<lparr>passed = False, checkTimestamp = 0, detailsHash = 0,
                                  verifier = 0\<rparr>),
     currentParameters = \<lparr>parametersHash = 0, lastUpdateTime = 0, active = False\<rparr>\<rparr>"

definition agreementExists :: "uint256 \<Rightarrow> RentalCore \<Rightarrow> bool" where
  "agreementExists agreementId s = (propertyId (agreements s agreementId) \<noteq> 0)"

definition getAgreementDetails ::
  "uint256 \<Rightarrow> RentalCore \<Rightarrow>
   revert + (uint256 \<times> address \<times> address \<times> uint256 \<times> uint256 \<times> uint256 \<times> uint256 \<times> nat \<times> bytes32)"
  where
  "getAgreementDetails agreementId s =
     require (agreementExists agreementId s) ''Agreement doesn't exist'' (
       let agreement = agreements s agreementId in
       Inr (propertyId agreement, landlord agreement, tenant agreement,
            startDate agreement, endDate agreement, rentAmount agreement,
            depositAmount agreement, uint8_of_status (status agreement),
            termsHash agreement))"

definition recordComplianceCheck ::
  "env \<Rightarrow> uint256 \<Rightarrow> nat \<Rightarrow> bool \<Rightarrow> bytes32 \<Rightarrow> ComplianceVerifier \<Rightarrow> ComplianceVerifier" where
  "recordComplianceCheck e entityId entityType passed' detailsHash' v =
     v\<lparr>complianceChecks := (complianceChecks v)(entityId :=
          (complianceChecks v entityId)(entityType :=
             \<lparr>passed = passed', checkTimestamp = block_timestamp e,
              detailsHash = detailsHash', verifier = msg_sender e\<rparr>))\<rparr>"

definition verifyPartyCompliance ::
  "env \<Rightarrow> address \<Rightarrow> nat \<Rightarrow> ComplianceVerifier \<Rightarrow>
   revert + ((bool \<times> bytes32) \<times> ComplianceVerifier)" where
  "verifyPartyCompliance e partyAddress partyType v =
     require (partyAddress \<noteq> 0) ''Invalid party address'' (
     require (partyType = LANDLORD_TYPE \<or> partyType = TENANT_TYPE) ''Invalid party type'' (
       let checkHash = keccak256 e [partyAddress, partyType, block_timestamp e];
           checkPassed = True
       in Inr ((checkPassed, checkHash),
               recordComplianceCheck e partyAddress partyType checkPassed checkHash v)))"

definition verifyPropertyCompliance ::
  "env \<Rightarrow> uint256 \<Rightarrow> ComplianceVerifier \<Rightarrow> (bool \<times> bytes32) \<times> ComplianceVerifier" where
  "verifyPropertyCompliance e propertyId' v =
     (let checkHash = keccak256 e [propertyId', block_timestamp e];
          checkPassed = True
      in ((checkPassed, checkHash),
          recordComplianceCheck e propertyId' PROPERTY_TYPE checkPassed checkHash v))"

text \<open>
  \<open>verifyContractCompliance\<close> reads the agreement through RentalCore's
  \<open>getAgreementDetails\<close>, so it takes RentalCore's state as well. The source binds the
  first three of the returned components (\<open>propertyId\<close>, \<open>landlord\<close>, \<open>tenant\<close>).
\<close>

definition verifyContractCompliance ::
  "env \<Rightarrow> uint256 \<Rightarrow> RentalCore \<Rightarrow> ComplianceVerifier \<Rightarrow>
   revert + ((bool \<times> bytes32) \<times> ComplianceVerifier)" where
  "verifyContractCompliance e agreementId rentalCore v =
     require (active (currentParameters v)) ''Compliance parameters not set'' (
     andThen (getAgreementDetails agreementId rentalCore)
       (\<lambda>(propertyId', landlord', tenant', _).
     andThen (verifyPartyCompliance e landlord' LANDLORD_TYPE v)
       (\<lambda>((landlordCompliant, landlordDetails), v1).
     andThen (verifyPartyCompliance e tenant' TENANT_TYPE v1)
       (\<lambda>((tenantCompliant, tenantDetails), v2).
     case verifyPropertyCompliance e propertyId' v2 of
       ((propertyCompliant, propertyDetails), v3) \<Rightarrow>
         let allCompliant = landlordCompliant \<and> tenantCompliant \<and> propertyCompliant;
             finalHash = keccak256 e [landlordDetails, tenantDetails, propertyDetails]
         in Inr ((allCompliant, finalHash),
                 recordComplianceCheck e agreementId AGREEMENT_TYPE allCompliant finalHash v3)))))"

definition updateComplianceParameters ::
  "env \<Rightarrow> bytes32 \<Rightarrow> ComplianceVerifier \<Rightarrow> revert + ComplianceVerifier" where
  "updateComplianceParameters e parametersHash' v =
     require (hasRole e (msg_sender e) ''SYSTEM_ADMIN'') ''Not admin'' (
     require (parametersHash' \<noteq> 0) ''Invalid parameters'' (
       Inr (v\<lparr>currentParameters := \<lparr>parametersHash = parametersHash',
              lastUpdateTime = block_timestamp e, active = True\<rparr>\<rparr>)))"



section \<open>RentalCore: operations\<close>

text \<open>
  RentalCore, its ComplianceVerifier and the PaymentManager form one deployed system.
  \<open>coreAddress\<close> is RentalCore's own address: the caller the verifier sees when
  RentalCore asks for a compliance check. The payment records and the four tables of the
  PaymentManager are declared here, with the system they are part of.
\<close>

datatype PaymentType = Rent | Deposit | LateFee

record PaymentRecord =
  timestamp :: uint256
  amount :: uint256
  paymentType :: PaymentType
  confirmed :: bool

record PaymentManager =
  paymentHistory :: "uint256 \<Rightarrow> PaymentRecord list"
  depositBalances :: "uint256 \<Rightarrow> uint256"
  lastPaymentDate :: "uint256 \<Rightarrow> uint256"
  outstandingBalance :: "uint256 \<Rightarrow> uint256"

record system =
  core :: RentalCore
  compliance :: ComplianceVerifier
  payments :: PaymentManager
  coreAddress :: address

definition registerProperty :: "env \<Rightarrow> bytes32 \<Rightarrow> RentalCore \<Rightarrow> revert + (uint256 \<times> RentalCore)" where
  "registerProperty e dataHash' s =
     require (\<not> paused s) ''Pausable: paused'' (
     require (dataHash' \<noteq> 0) ''Invalid property data'' (
     require (hasPermission e (msg_sender e) ''REGISTER_PROPERTY'') ''No permission'' (
       let newPropertyId = increment (propertyIds s);
           newProperty = (properties s newPropertyId)
              \<lparr>owner := msg_sender e, dataHash := dataHash', isActive := True\<rparr>
       in Inr (newPropertyId,
               s\<lparr>propertyIds := newPropertyId,
                 properties := (properties s)(newPropertyId := newProperty),
                 userProperties := (userProperties s)(msg_sender e :=
                    userProperties s (msg_sender e) @ [newPropertyId])\<rparr>))))"

text \<open>
  \<open>createAgreement\<close>. The modifiers run first (\<open>whenNotPaused\<close>, \<open>propertyExists\<close>), then
  the \<open>require\<close>s of the body in the order of the source, then the compliance check on
  \<open>propertyId\<close>, then the writes.
\<close>

definition createAgreement ::
  "env \<Rightarrow> uint256 \<Rightarrow> address \<Rightarrow> bytes32 \<Rightarrow> uint256 \<Rightarrow> uint256 \<Rightarrow> uint256 \<Rightarrow> uint256 \<Rightarrow> system
   \<Rightarrow> revert + (uint256 \<times> system)" where
  "createAgreement e propertyId' tenant' terms startDate' endDate' rentAmount' depositAmount' sys =
     (let s = core sys in
      require (\<not> paused s) ''Pausable: paused'' (
      require (owner (properties s propertyId') \<noteq> 0) ''Property doesn't exist'' (
      require (tenant' \<noteq> 0) ''Invalid tenant address'' (
      require (terms \<noteq> 0) ''Invalid terms'' (
      require (startDate' > block_timestamp e) ''Invalid start date'' (
      require (endDate' > startDate') ''Invalid end date'' (
      require (rentAmount' > 0) ''Invalid rent amount'' (
      require (depositAmount' > 0) ''Invalid deposit amount'' (
      require (owner (properties s propertyId') = msg_sender e) ''Not property owner'' (
      require (isActive (properties s propertyId')) ''Property not active'' (
      andThen (verifyContractCompliance (e\<lparr>msg_sender := coreAddress sys, msg_value := 0\<rparr>)
                 propertyId' s (compliance sys))
        (\<lambda>((compliant, _), v').
      require compliant ''Failed compliance check'' (
        let newAgreementId = increment (agreementIds s);
            newAgreement = (agreements s newAgreementId)
               \<lparr>propertyId := propertyId', landlord := msg_sender e, tenant := tenant',
                startDate := startDate', endDate := endDate', rentAmount := rentAmount',
                depositAmount := depositAmount', status := Pending, termsHash := terms\<rparr>;
            s1 = s\<lparr>agreementIds := newAgreementId,
                   agreements := (agreements s)(newAgreementId := newAgreement)\<rparr>;
            s2 = s1\<lparr>properties := (properties s1)(propertyId' := (properties s1 propertyId')
                   \<lparr>agreementHistory :=
                      agreementHistory (properties s1 propertyId') @ [newAgreementId]\<rparr>)\<rparr>;
            s3 = s2\<lparr>userAgreements := (userAgreements s2)(msg_sender e :=
                   userAgreements s2 (msg_sender e) @ [newAgreementId])\<rparr>;
            s4 = s3\<lparr>userAgreements := (userAgreements s3)(tenant' :=
                   userAgreements s3 tenant' @ [newAgreementId])\<rparr>
        in Inr (newAgreementId, sys\<lparr>core := s4, compliance := v'\<rparr>))))))))))))))"

definition terminateAgreement :: "env \<Rightarrow> uint256 \<Rightarrow> system \<Rightarrow> revert + system" where
  "terminateAgreement e agreementId sys =
     (let s = core sys; agreement = agreements s agreementId in
      require (\<not> paused s) ''Pausable: paused'' (
      require (agreementExists agreementId s) ''Agreement doesn't exist'' (
      require (landlord agreement = msg_sender e \<or> tenant agreement = msg_sender e)
        ''Not agreement party'' (
      require (status agreement = Active) ''Agreement not active'' (
      andThen (verifyContractCompliance (e\<lparr>msg_sender := coreAddress sys, msg_value := 0\<rparr>)
                 agreementId s (compliance sys))
        (\<lambda>((compliant, _), v').
      require compliant ''Failed compliance check'' (
        Inr (sys\<lparr>core := s\<lparr>agreements := (agreements s)(agreementId :=
                      agreement\<lparr>status := Terminated\<rparr>)\<rparr>,
                 compliance := v'\<rparr>))))))))"

definition updateAgreementStatus :: "env \<Rightarrow> uint256 \<Rightarrow> nat \<Rightarrow> RentalCore \<Rightarrow> revert + RentalCore" where
  "updateAgreementStatus e agreementId status' s =
     require (\<not> paused s) ''Pausable: paused'' (
     require (agreementExists agreementId s) ''Agreement doesn't exist'' (
     require (hasPermission e (msg_sender e) ''UPDATE_AGREEMENT'') ''No permission'' (
     require (status' \<le> uint8_of_status Disputed) ''Invalid status'' (
       Inr (s\<lparr>agreements := (agreements s)(agreementId :=
               (agreements s agreementId)\<lparr>status := status_of_uint8 status'\<rparr>)\<rparr>)))))"

definition getPropertyDetails :: "uint256 \<Rightarrow> RentalCore \<Rightarrow> revert + (address \<times> bytes32 \<times> bool)" where
  "getPropertyDetails propertyId' s =
     require (owner (properties s propertyId') \<noteq> 0) ''Property doesn't exist'' (
       let property = properties s propertyId' in
       Inr (owner property, dataHash property, isActive property))"

definition emergencyShutdown :: "env \<Rightarrow> RentalCore \<Rightarrow> revert + RentalCore" where
  "emergencyShutdown e s =
     require (hasRole e (msg_sender e) ''SYSTEM_ADMIN'') ''Not system admin'' (
     require (\<not> paused s) ''Pausable: paused'' (
       Inr (s\<lparr>paused := True\<rparr>)))"

definition resumeOperation :: "env \<Rightarrow> RentalCore \<Rightarrow> revert + RentalCore" where
  "resumeOperation e s =
     require (hasRole e (msg_sender e) ''SYSTEM_ADMIN'') ''Not system admin'' (
     require (paused s) ''Pausable: not paused'' (
       Inr (s\<lparr>paused := False\<rparr>)))"


section \<open>PaymentManager\<close>

text \<open>
  The contract uses \<open>SafeMath\<close>, whose operations under Solidity 0.8 are the checked
  ones. Like the verifier, the contract has no function that pauses it. The ether that a
  payable call brings and that a release sends is not tracked: a low-level transfer is
  modelled by its outcome, which the context gives, and not by what the recipient's code
  does while it runs (the reentrancy guard bars it from the guarded functions of the
  contract).
\<close>

definition LATE_FEE_PERCENTAGE :: uint256 where "LATE_FEE_PERCENTAGE = 10"
definition GRACE_PERIOD_DAYS :: uint256 where "GRACE_PERIOD_DAYS = 5"

definition deployedPaymentManager :: PaymentManager where
  "deployedPaymentManager = \<lparr>paymentHistory = (\<lambda>_. []), depositBalances = (\<lambda>_. 0),
     lastPaymentDate = (\<lambda>_. 0), outstandingBalance = (\<lambda>_. 0)\<rparr>"

definition deployedSystem :: "address \<Rightarrow> system" where
  "deployedSystem a = \<lparr>core = deployedRentalCore, compliance = deployedComplianceVerifier,
     payments = deployedPaymentManager, coreAddress = a\<rparr>"

definition onlyValidAgreement :: "uint256 \<Rightarrow> RentalCore \<Rightarrow> (revert + 'a) \<Rightarrow> revert + 'a" where
  "onlyValidAgreement agreementId rentalCore k =
     andThen (getAgreementDetails agreementId rentalCore)
       (\<lambda>(_, _, _, _, _, _, _, status', _).
     require (status' = 1) ''Agreement not active'' k)"

definition onlyAuthorized :: "env \<Rightarrow> (revert + 'a) \<Rightarrow> revert + 'a" where
  "onlyAuthorized e k =
     require (hasRole e (msg_sender e) ''PAYMENT_MANAGER''
              \<or> hasRole e (msg_sender e) ''SYSTEM_ADMIN'') ''Not authorized'' k"

text \<open>The loop of \<open>_updateOutstandingBalance\<close> over the payment records, oldest first.\<close>

fun totalPaidLoop :: "PaymentRecord list \<Rightarrow> uint256 \<Rightarrow> revert + uint256" where
  "totalPaidLoop [] totalPaid = Inr totalPaid"
| "totalPaidLoop (r # records) totalPaid =
     (if paymentType r = Rent \<and> confirmed r
      then andThen (checked_add totalPaid (amount r)) (totalPaidLoop records)
      else totalPaidLoop records totalPaid)"

definition updateOutstandingBalance ::
  "env \<Rightarrow> uint256 \<Rightarrow> RentalCore \<Rightarrow> PaymentManager \<Rightarrow> revert + PaymentManager" where
  "updateOutstandingBalance e agreementId rentalCore pm =
     andThen (getAgreementDetails agreementId rentalCore)
       (\<lambda>(_, _, _, startDate', _, rentAmount', _, _, _).
     andThen (checked_sub (block_timestamp e) startDate') (\<lambda>elapsed.
     let monthsSinceStart = elapsed div (30 * 86400) in
     andThen (checked_add monthsSinceStart 1) (\<lambda>months.
     andThen (checked_mul rentAmount' months) (\<lambda>expectedTotal.
     andThen (totalPaidLoop (paymentHistory pm agreementId) 0) (\<lambda>totalPaid.
       Inr (pm\<lparr>outstandingBalance := (outstandingBalance pm)(agreementId :=
              (if expectedTotal > totalPaid then expectedTotal - totalPaid else 0))\<rparr>))))))"

definition calculateLateFees :: "env \<Rightarrow> uint256 \<Rightarrow> RentalCore \<Rightarrow> PaymentManager \<Rightarrow> revert + uint256" where
  "calculateLateFees e agreementId rentalCore pm =
     andThen (getAgreementDetails agreementId rentalCore)
       (\<lambda>(_, _, _, startDate', _, rentAmount', _, _, _).
     let lastPayment = (if lastPaymentDate pm agreementId = 0 then startDate'
                        else lastPaymentDate pm agreementId) in
     andThen (checked_sub (block_timestamp e) lastPayment) (\<lambda>elapsed.
     let daysLate = elapsed div SECONDS_PER_DAY in
     if daysLate \<le> GRACE_PERIOD_DAYS then Inr 0
     else andThen (checked_mul rentAmount' LATE_FEE_PERCENTAGE) (\<lambda>fee. Inr (fee div 100))))"

definition processRentPayment ::
  "env \<Rightarrow> uint256 \<Rightarrow> RentalCore \<Rightarrow> PaymentManager \<Rightarrow> revert + (bool \<times> PaymentManager)" where
  "processRentPayment e agreementId rentalCore pm =
     onlyValidAgreement agreementId rentalCore (
     andThen (getAgreementDetails agreementId rentalCore)
       (\<lambda>(_, _, _, _, _, rentAmount', _, _, _).
     require (msg_value e \<ge> rentAmount') ''Insufficient payment'' (
       let newPayment = \<lparr>timestamp = block_timestamp e, amount = msg_value e,
                         paymentType = Rent, confirmed = True\<rparr>;
           pm1 = pm\<lparr>paymentHistory := (paymentHistory pm)(agreementId :=
                    paymentHistory pm agreementId @ [newPayment])\<rparr>;
           pm2 = pm1\<lparr>lastPaymentDate := (lastPaymentDate pm1)(agreementId := block_timestamp e)\<rparr>
       in andThen (updateOutstandingBalance e agreementId rentalCore pm2) (\<lambda>pm3.
          Inr (True, pm3)))))"

definition processDeposit ::
  "env \<Rightarrow> uint256 \<Rightarrow> RentalCore \<Rightarrow> PaymentManager \<Rightarrow> revert + (bool \<times> PaymentManager)" where
  "processDeposit e agreementId rentalCore pm =
     onlyValidAgreement agreementId rentalCore (
     andThen (getAgreementDetails agreementId rentalCore)
       (\<lambda>(_, _, _, _, _, _, depositAmount', _, _).
     require (msg_value e \<ge> depositAmount') ''Insufficient deposit'' (
       let newPayment = \<lparr>timestamp = block_timestamp e, amount = msg_value e,
                         paymentType = Deposit, confirmed = True\<rparr>;
           pm1 = pm\<lparr>paymentHistory := (paymentHistory pm)(agreementId :=
                    paymentHistory pm agreementId @ [newPayment])\<rparr>
       in andThen (checked_add (depositBalances pm1 agreementId) (msg_value e)) (\<lambda>balance.
          Inr (True, pm1\<lparr>depositBalances := (depositBalances pm1)(agreementId := balance)\<rparr>)))))"

definition releaseDeposit ::
  "env \<Rightarrow> uint256 \<Rightarrow> uint256 \<Rightarrow> address \<Rightarrow> PaymentManager \<Rightarrow> revert + (bool \<times> PaymentManager)" where
  "releaseDeposit e agreementId amount' recipient pm =
     onlyAuthorized e (
     require (recipient \<noteq> 0) ''Invalid recipient'' (
     require (amount' \<le> depositBalances pm agreementId) ''Insufficient deposit balance'' (
     andThen (checked_sub (depositBalances pm agreementId) amount') (\<lambda>balance.
       let pm1 = pm\<lparr>depositBalances := (depositBalances pm)(agreementId := balance)\<rparr>;
           success = transferSucceeds e
       in require success ''Transfer failed'' (Inr (True, pm1))))))"

definition calculateOutstandingRent ::
  "env \<Rightarrow> uint256 \<Rightarrow> RentalCore \<Rightarrow> PaymentManager \<Rightarrow> revert + (uint256 \<times> uint256)" where
  "calculateOutstandingRent e agreementId rentalCore pm =
     (let amount' = outstandingBalance pm agreementId in
      andThen (calculateLateFees e agreementId rentalCore pm) (\<lambda>lateFees.
      Inr (amount', lateFees)))"

definition handleLateFees ::
  "env \<Rightarrow> uint256 \<Rightarrow> RentalCore \<Rightarrow> PaymentManager \<Rightarrow> revert + (uint256 \<times> PaymentManager)" where
  "handleLateFees e agreementId rentalCore pm =
     onlyAuthorized e (
     andThen (calculateLateFees e agreementId rentalCore pm) (\<lambda>lateFees.
     if lateFees > 0
     then andThen (checked_add (outstandingBalance pm agreementId) lateFees) (\<lambda>balance.
          Inr (lateFees, pm\<lparr>outstandingBalance := (outstandingBalance pm)(agreementId := balance)\<rparr>))
     else Inr (lateFees, pm)))"

definition getDepositBalance :: "uint256 \<Rightarrow> PaymentManager \<Rightarrow> uint256" where
  "getDepositBalance agreementId pm = depositBalances pm agreementId"

definition emergencyWithdraw :: "env \<Rightarrow> address \<Rightarrow> PaymentManager \<Rightarrow> revert + PaymentManager" where
  "emergencyWithdraw e recipient pm =
     onlyAuthorized e (
     require (recipient \<noteq> 0) ''Invalid recipient'' (
     require (transferSucceeds e) ''Transfer failed'' (Inr pm)))"


section \<open>Calls and traces\<close>

text \<open>
  The state-changing entry points of the three contracts. A call that reverts leaves the
  system as it was; a trace is a list of calls, each with its own context. Left out are
  the entry points that write none of the modelled state: the verifier and oracle
  registry of the ComplianceVerifier, the plain receipt of ether by the PaymentManager,
  and the AccessControlManager's own functions, whose effect is the change of the answers
  \<open>hasPermission\<close> and \<open>hasRole\<close> from one context to the next.
\<close>

datatype call =
    RegisterProperty bytes32
  | CreateAgreement uint256 address bytes32 uint256 uint256 uint256 uint256
  | TerminateAgreement uint256
  | UpdateAgreementStatus uint256 nat
  | EmergencyShutdown
  | ResumeOperation
  | VerifyContractCompliance uint256
  | VerifyLandlordCompliance address
  | VerifyTenantCompliance address
  | UpdateComplianceParameters bytes32
  | ProcessRentPayment uint256
  | ProcessDeposit uint256
  | ReleaseDeposit uint256 uint256 address
  | HandleLateFees uint256
  | EmergencyWithdraw address

fun exec :: "env \<Rightarrow> call \<Rightarrow> system \<Rightarrow> revert + system" where
  "exec e (RegisterProperty h) sys =
     andThen (registerProperty e h (core sys)) (\<lambda>(_, s'). Inr (sys\<lparr>core := s'\<rparr>))"
| "exec e (CreateAgreement p t terms sd ed rent dep) sys =
     andThen (createAgreement e p t terms sd ed rent dep sys) (\<lambda>(_, sys'). Inr sys')"
| "exec e (TerminateAgreement a) sys = terminateAgreement e a sys"
| "exec e (UpdateAgreementStatus a st) sys =
     andThen (updateAgreementStatus e a st (core sys)) (\<lambda>s'. Inr (sys\<lparr>core := s'\<rparr>))"
| "exec e EmergencyShutdown sys =
     andThen (emergencyShutdown e (core sys)) (\<lambda>s'. Inr (sys\<lparr>core := s'\<rparr>))"
| "exec e ResumeOperation sys =
     andThen (resumeOperation e (core sys)) (\<lambda>s'. Inr (sys\<lparr>core := s'\<rparr>))"
| "exec e (VerifyContractCompliance a) sys =
     andThen (verifyContractCompliance e a (core sys) (compliance sys))
       (\<lambda>(_, v'). Inr (sys\<lparr>compliance := v'\<rparr>))"
| "exec e (VerifyLandlordCompliance a) sys =
     andThen (verifyPartyCompliance e a LANDLORD_TYPE (compliance sys))
       (\<lambda>(_, v'). Inr (sys\<lparr>compliance := v'\<rparr>))"
| "exec e (VerifyTenantCompliance a) sys =
     andThen (verifyPartyCompliance e a TENANT_TYPE (compliance sys))
       (\<lambda>(_, v'). Inr (sys\<lparr>compliance := v'\<rparr>))"
| "exec e (UpdateComplianceParameters h) sys =
     andThen (updateComplianceParameters e h (compliance sys))
       (\<lambda>v'. Inr (sys\<lparr>compliance := v'\<rparr>))"
| "exec e (ProcessRentPayment a) sys =
     andThen (processRentPayment e a (core sys) (payments sys))
       (\<lambda>(_, pm'). Inr (sys\<lparr>payments := pm'\<rparr>))"
| "exec e (ProcessDeposit a) sys =
     andThen (processDeposit e a (core sys) (payments sys))
       (\<lambda>(_, pm'). Inr (sys\<lparr>payments := pm'\<rparr>))"
| "exec e (ReleaseDeposit a amt r) sys =
     andThen (releaseDeposit e a amt r (payments sys))
       (\<lambda>(_, pm'). Inr (sys\<lparr>payments := pm'\<rparr>))"
| "exec e (HandleLateFees a) sys =
     andThen (handleLateFees e a (core sys) (payments sys))
       (\<lambda>(_, pm'). Inr (sys\<lparr>payments := pm'\<rparr>))"
| "exec e (EmergencyWithdraw r) sys =
     andThen (emergencyWithdraw e r (payments sys)) (\<lambda>pm'. Inr (sys\<lparr>payments := pm'\<rparr>))"

definition step :: "env \<times> call \<Rightarrow> system \<Rightarrow> system" where
  "step c sys = (case exec (fst c) (snd c) sys of Inl _ \<Rightarrow> sys | Inr sys' \<Rightarrow> sys')"

fun run :: "(env \<times> call) list \<Rightarrow> system \<Rightarrow> system" where
  "run [] sys = sys"
| "run (c # cs) sys = run cs (step c sys)"

section \<open>The quantities the specification speaks of\<close>

text \<open>
  The sum of all confirmed Rent payment amounts of a payment history, as the
  specification words it; \<open>totalPaidLoop\<close> is the code's computation of it.
\<close>

definition rentPaid :: "PaymentRecord list \<Rightarrow> nat" where
  "rentPaid records =
     sum_list (map amount (filter (\<lambda>r. paymentType r = Rent \<and> confirmed r) records))"

text \<open>
  Along a trace: whether a call succeeds in the state it meets, the amount a
  \<open>processDeposit\<close> call pays into an agreement, the amount a \<open>releaseDeposit\<close> call takes
  out of it, and the lists of the amounts of the successful ones.
\<close>

definition succeeds :: "env \<times> call \<Rightarrow> system \<Rightarrow> bool" where
  "succeeds c sys = (case exec (fst c) (snd c) sys of Inl _ \<Rightarrow> False | Inr _ \<Rightarrow> True)"

fun depositOf :: "uint256 \<Rightarrow> env \<Rightarrow> call \<Rightarrow> uint256 list" where
  "depositOf a e (ProcessDeposit a') = (if a' = a then [msg_value e] else [])"
| "depositOf a e _ = []"

fun releaseOf :: "uint256 \<Rightarrow> call \<Rightarrow> uint256 list" where
  "releaseOf a (ReleaseDeposit a' amt r) = (if a' = a then [amt] else [])"
| "releaseOf a _ = []"

fun depositsPaid :: "uint256 \<Rightarrow> (env \<times> call) list \<Rightarrow> system \<Rightarrow> uint256 list" where
  "depositsPaid a [] sys = []"
| "depositsPaid a (c # cs) sys =
     (if succeeds c sys then depositOf a (fst c) (snd c) else [])
     @ depositsPaid a cs (step c sys)"

fun depositsReleased :: "uint256 \<Rightarrow> (env \<times> call) list \<Rightarrow> system \<Rightarrow> uint256 list" where
  "depositsReleased a [] sys = []"
| "depositsReleased a (c # cs) sys =
     (if succeeds c sys then releaseOf a (snd c) else [])
     @ depositsReleased a cs (step c sys)"

fun isStatusUpdateOf :: "uint256 \<Rightarrow> call \<Rightarrow> bool" where
  "isStatusUpdateOf a (UpdateAgreementStatus a' st) = (a' = a)"
| "isStatusUpdateOf a _ = False"

definition terminal :: "AgreementStatus \<Rightarrow> bool" where
  "terminal st = (st = Terminated \<or> st = Expired \<or> st = Disputed)"

section \<open>Concrete states and contexts\<close>

text \<open>
  A context whose AccessControlManager grants every permission and role, and a system
  with one active property (id 1, owner 10) carrying one Active agreement (id 1,
  landlord 10, tenant 20, rent 1000, deposit 2000, starting at time 2000) and with the
  compliance parameters set. No trace of calls leads from the deployed system to a state
  with an agreement (see the section on agreement creation), so the properties of
  agreements are stated for arbitrary states of the storage, and this state stands for
  one in which an agreement exists.
\<close>

definition exampleEnv :: "address \<Rightarrow> uint256 \<Rightarrow> uint256 \<Rightarrow> env" where
  "exampleEnv who value now = \<lparr>msg_sender = who, msg_value = value, block_timestamp = now,
     hasPermission = (\<lambda>_ _. True), hasRole = (\<lambda>_ _. True),
     keccak256 = (\<lambda>xs. Suc (sum_list xs)), transferSucceeds = True\<rparr>"

definition exampleAgreement :: Agreement where
  "exampleAgreement = \<lparr>propertyId = 1, landlord = 10, tenant = 20, startDate = 2000,
     endDate = 31538000, rentAmount = 1000, depositAmount = 2000, status = Active,
     termsHash = 5, amendmentHashes = []\<rparr>"

definition exampleSystem :: system where
  "exampleSystem = \<lparr>
     core = \<lparr>paused = False, propertyIds = 1, agreementIds = 1,
       properties = (\<lambda>_. zeroProperty)(1 :=
          \<lparr>owner = 10, dataHash = 77, isActive = True, agreementHistory = [1]\<rparr>),
       agreements = (\<lambda>_. zeroAgreement)(1 := exampleAgreement),
       userProperties = (\<lambda>_. [])(10 := [1]),
       userAgreements = (\<lambda>_. [])(10 := [1], 20 := [1])\<rparr>,
     compliance = deployedComplianceVerifier\<lparr>currentParameters :=
       \<lparr>parametersHash = 9, lastUpdateTime = 500, active = True\<rparr>\<rparr>,
     payments = deployedPaymentManager,
     coreAddress = 100\<rparr>"

text \<open>
  The system after deployment, the registration of a property by account 10 and the
  setting of the compliance parameters: the state in which a first agreement would be
  created.
\<close>

definition registeredSystem :: system where
  "registeredSystem =
     run [(exampleEnv 10 0 900, RegisterProperty 77),
          (exampleEnv 1 0 950, UpdateComplianceParameters 9)] (deployedSystem 100)"

text \<open>The same system with a rent of \<open>2 ^ 255\<close> on its agreement.\<close>

definition hugeRentSystem :: system where
  "hugeRentSystem = exampleSystem\<lparr>core := (core exampleSystem)\<lparr>agreements :=
     (\<lambda>_. zeroAgreement)(1 := exampleAgreement\<lparr>rentAmount := 2 ^ 255\<rparr>)\<rparr>\<rparr>"

text \<open>The example system with its agreement still Pending, and with it Terminated.\<close>

definition pendingSystem :: system where
  "pendingSystem = exampleSystem\<lparr>core := (core exampleSystem)\<lparr>agreements :=
     (\<lambda>_. zeroAgreement)(1 := exampleAgreement\<lparr>status := Pending\<rparr>)\<rparr>\<rparr>"

definition terminatedSystem :: system where
  "terminatedSystem = exampleSystem\<lparr>core := (core exampleSystem)\<lparr>agreements :=
     (\<lambda>_. zeroAgreement)(1 := exampleAgreement\<lparr>status := Terminated\<rparr>)\<rparr>\<rparr>"

text \<open>
  Two traces on the example system: two deposits by the tenant, a release and a release
  beyond the balance by an administrator; and a mixed trace of calls by several accounts.
\<close>

definition depositTrace :: "(env \<times> call) list" where
  "depositTrace =
     [(exampleEnv 20 2000 3000, ProcessDeposit 1),
      (exampleEnv 20 2500 3100, ProcessDeposit 1),
      (exampleEnv 1 0 3200, ReleaseDeposit 1 1500 20),
      (exampleEnv 1 0 3300, ReleaseDeposit 1 9999 20)]"

definition mixedTrace :: "(env \<times> call) list" where
  "mixedTrace =
     [(exampleEnv 10 0 3000, TerminateAgreement 1),
      (exampleEnv 20 1000 3100, ProcessRentPayment 1),
      (exampleEnv 1 0 3200, UpdateAgreementStatus 2 1),
      (exampleEnv 30 0 3300, RegisterProperty 88),
      (exampleEnv 1 0 3400, EmergencyShutdown)]"

section \<open>Reverts and results\<close>

lemma require_Inr_iff: "(require c m k = Inr v) = (c \<and> k = Inr v)"
  by (simp add: require_def)

lemma require_True: "c \<Longrightarrow> require c m k = k"
  by (simp add: require_def)

lemma andThen_Inl: "andThen (Inl err) k = Inl err"
  by (simp add: andThen_def)

lemma andThen_Inr: "andThen (Inr v) k = k v"
  by (simp add: andThen_def)

lemma andThen_Inr_iff: "(andThen r k = Inr v) = (\<exists>x. r = Inr x \<and> k x = Inr v)"
  by (cases r) (simp_all add: andThen_def)

lemma not_Inr_iff: "(\<forall>v. r \<noteq> Inr v) = (\<exists>err. r = Inl err)"
  by (cases r) simp_all

lemmas example_defs = exampleAgreement_def exampleSystem_def exampleEnv_def zeroProperty_def
  zeroAgreement_def deployedComplianceVerifier_def deployedPaymentManager_def
  deployedRentalCore_def deployedSystem_def


section \<open>What a successful call has checked and written\<close>

lemma getAgreementDetails_absent:
  "\<not> agreementExists i s \<Longrightarrow> getAgreementDetails i s = Inl (Revert ''Agreement doesn't exist'')"
  by (simp add: getAgreementDetails_def require_def)

lemma verifyContractCompliance_absent:
  "\<not> agreementExists i s \<Longrightarrow> verifyContractCompliance e i s v \<noteq> Inr r"
  by (simp add: verifyContractCompliance_def getAgreementDetails_absent require_Inr_iff andThen_Inl)


lemma createAgreement_absent:
  "\<not> agreementExists p (core sys) \<Longrightarrow> createAgreement e p t terms sd ed rent dep sys \<noteq> Inr r"
  by (simp add: createAgreement_def Let_def require_Inr_iff andThen_Inr_iff
      verifyContractCompliance_absent)

lemma registerProperty_Inr:
  assumes "registerProperty e h s = Inr (i, s')"
  shows "i = increment (propertyIds s)"
    and "agreements s' = agreements s"
    and "agreementIds s' = agreementIds s"
    and "paused s' = paused s"
    and "properties s' = (properties s)(i := (properties s i)
           \<lparr>owner := msg_sender e, dataHash := h, isActive := True\<rparr>)"
    and "propertyIds s' = i"
  using assms by (auto simp: registerProperty_def require_Inr_iff Let_def)

lemma createAgreement_Inr:
  assumes "createAgreement e p t terms sd ed rent dep sys = Inr (i, sys')"
  shows "agreementExists p (core sys)"
    and "i = increment (agreementIds (core sys))"
    and "agreements (core sys') = (agreements (core sys))(i := (agreements (core sys) i)
           \<lparr>propertyId := p, landlord := msg_sender e, tenant := t,
            startDate := sd, endDate := ed, rentAmount := rent,
            depositAmount := dep, status := Pending, termsHash := terms\<rparr>)"
    and "properties (core sys') = (properties (core sys))(p := (properties (core sys) p)
           \<lparr>agreementHistory := agreementHistory (properties (core sys) p) @ [i]\<rparr>)"
    and "paused (core sys') = paused (core sys)"
    and "payments sys' = payments sys"
    and "coreAddress sys' = coreAddress sys"
    and "agreementIds (core sys') = i"
    and "propertyIds (core sys') = propertyIds (core sys)"
proof -
  show "agreementExists p (core sys)"
    using assms createAgreement_absent by blast
  show "i = increment (agreementIds (core sys))"
    and "agreements (core sys') = (agreements (core sys))(i := (agreements (core sys) i)
           \<lparr>propertyId := p, landlord := msg_sender e, tenant := t,
            startDate := sd, endDate := ed, rentAmount := rent,
            depositAmount := dep, status := Pending, termsHash := terms\<rparr>)"
    and "properties (core sys') = (properties (core sys))(p := (properties (core sys) p)
           \<lparr>agreementHistory := agreementHistory (properties (core sys) p) @ [i]\<rparr>)"
    and "paused (core sys') = paused (core sys)"
    and "payments sys' = payments sys"
    and "coreAddress sys' = coreAddress sys"
    and "agreementIds (core sys') = i"
    and "propertyIds (core sys') = propertyIds (core sys)"
    using assms
    by (auto simp: createAgreement_def require_Inr_iff andThen_Inr_iff Let_def)
qed

lemma terminateAgreement_Inr:
  assumes "terminateAgreement e a sys = Inr sys'"
  shows "\<not> paused (core sys)"
    and "agreementExists a (core sys)"
    and "landlord (agreements (core sys) a) = msg_sender e
         \<or> tenant (agreements (core sys) a) = msg_sender e"
    and "status (agreements (core sys) a) = Active"
    and "core sys' = (core sys)\<lparr>agreements := (agreements (core sys))(a :=
           (agreements (core sys) a)\<lparr>status := Terminated\<rparr>)\<rparr>"
    and "payments sys' = payments sys"
    and "coreAddress sys' = coreAddress sys"
  using assms
  by (auto simp: terminateAgreement_def require_Inr_iff andThen_Inr_iff Let_def)

lemma updateAgreementStatus_Inr:
  assumes "updateAgreementStatus e a st s = Inr s'"
  shows "\<not> paused s"
    and "agreementExists a s"
    and "hasPermission e (msg_sender e) ''UPDATE_AGREEMENT''"
    and "st \<le> 4"
    and "s' = s\<lparr>agreements := (agreements s)(a :=
           (agreements s a)\<lparr>status := status_of_uint8 st\<rparr>)\<rparr>"
  using assms
  by (auto simp: updateAgreementStatus_def require_Inr_iff)

lemma emergencyShutdown_Inr:
  "emergencyShutdown e s = Inr s' \<Longrightarrow> s' = s\<lparr>paused := True\<rparr>"
  by (auto simp: emergencyShutdown_def require_Inr_iff)

lemma resumeOperation_Inr:
  "resumeOperation e s = Inr s' \<Longrightarrow> s' = s\<lparr>paused := False\<rparr>"
  by (auto simp: resumeOperation_def require_Inr_iff)


section \<open>No agreement can come into existence after deployment\<close>

lemma step_no_agreements:
  assumes "\<forall>i. \<not> agreementExists i (core sys)"
  shows "\<forall>i. \<not> agreementExists i (core (step c sys))"
proof (cases c)
  case (Pair e c')
  show ?thesis
  proof (cases "exec e c' sys")
    case (Inl err)
    with Pair assms show ?thesis by (simp add: step_def)
  next
    case (Inr sys')
    have "\<forall>i. \<not> agreementExists i (core sys')"
    proof (cases c')
      case (RegisterProperty h)
      with Inr assms show ?thesis
        by (auto simp: andThen_Inr_iff agreementExists_def dest: registerProperty_Inr(2))
    next
      case (CreateAgreement p t terms sd ed rent dep)
      with Inr assms show ?thesis
        by (auto simp: andThen_Inr_iff dest: createAgreement_Inr(1))
    next
      case (TerminateAgreement a)
      with Inr assms show ?thesis
        by (auto dest: terminateAgreement_Inr(2))
    next
      case (UpdateAgreementStatus a st)
      with Inr assms show ?thesis
        by (auto simp: andThen_Inr_iff dest: updateAgreementStatus_Inr(2))
    next
      case EmergencyShutdown
      with Inr assms show ?thesis
        by (auto simp: andThen_Inr_iff agreementExists_def dest: emergencyShutdown_Inr)
    next
      case ResumeOperation
      with Inr assms show ?thesis
        by (auto simp: andThen_Inr_iff agreementExists_def dest: resumeOperation_Inr)
    qed (use Inr assms in \<open>auto simp: andThen_Inr_iff\<close>)
    with Pair Inr show ?thesis by (simp add: step_def)
  qed
qed

lemma run_no_agreements:
  "\<forall>i. \<not> agreementExists i (core sys) \<Longrightarrow> \<forall>i. \<not> agreementExists i (core (run cs sys))"
proof (induction cs arbitrary: sys)
  case Nil
  then show ?case by simp
next
  case (Cons c cs)
  from Cons.prems have "\<forall>i. \<not> agreementExists i (core (step c sys))"
    by (rule step_no_agreements)
  then show ?case using Cons.IH by simp
qed

lemma deployed_no_agreements: "\<not> agreementExists i (core (deployedSystem a))"
  by (simp add: agreementExists_def deployedSystem_def deployedRentalCore_def zeroAgreement_def)

lemma registeredSystem_eq:
  "registeredSystem = \<lparr>
     core = deployedRentalCore\<lparr>propertyIds := 1,
       properties := (\<lambda>_. zeroProperty)(1 :=
          \<lparr>owner = 10, dataHash = 77, isActive = True, agreementHistory = []\<rparr>),
       userProperties := (\<lambda>_. [])(10 := [1])\<rparr>,
     compliance = deployedComplianceVerifier\<lparr>currentParameters :=
       \<lparr>parametersHash = 9, lastUpdateTime = 950, active = True\<rparr>\<rparr>,
     payments = deployedPaymentManager,
     coreAddress = 100\<rparr>"
  by (simp add: registeredSystem_def step_def registerProperty_def updateComplianceParameters_def
      require_def andThen_def increment_def Let_def example_defs)

section \<open>Agreement creation\<close>

text \<open>
  C1. In every state in which no agreement with the id \<open>p\<close> exists, every call
  \<open>createAgreement(p, ...)\<close> fails: the compliance step asks the verifier about \<open>p\<close>, and
  the verifier reads the agreement details of \<open>p\<close>, whose existence check reverts. When
  all checks before the compliance step pass and the compliance parameters are set, the
  revert is that of the existence check. In particular the call fails in every state that
  a trace of calls reaches from the deployed system, for every choice of arguments.
\<close>

theorem createAgreement_fails_without_agreement:
  "(\<not> agreementExists p (core sys) \<longrightarrow>
      (\<exists>err. createAgreement e p t terms sd ed rent dep sys = Inl err))
   \<and> (\<not> agreementExists p (core sys) \<and> \<not> paused (core sys)
       \<and> owner (properties (core sys) p) = msg_sender e \<and> msg_sender e \<noteq> 0
       \<and> isActive (properties (core sys) p) \<and> t \<noteq> 0 \<and> terms \<noteq> 0
       \<and> sd > block_timestamp e \<and> ed > sd \<and> rent > 0 \<and> dep > 0
       \<and> active (currentParameters (compliance sys)) \<longrightarrow>
      createAgreement e p t terms sd ed rent dep sys = Inl (Revert ''Agreement doesn't exist''))
   \<and> (\<exists>err. createAgreement e p t terms sd ed rent dep (run cs (deployedSystem a)) = Inl err)"
proof -
  have fails: "\<exists>err. createAgreement e p t terms sd ed rent dep s = Inl err"
    if "\<not> agreementExists p (core s)" for s
    using createAgreement_absent [OF that] by (simp add: not_Inr_iff [symmetric])
  have "\<forall>i. \<not> agreementExists i (core (run cs (deployedSystem a)))"
    by (rule run_no_agreements) (simp add: deployed_no_agreements)
  then have fresh: "\<exists>err. createAgreement e p t terms sd ed rent dep (run cs (deployedSystem a)) = Inl err"
    using fails by blast
  have reason: "createAgreement e p t terms sd ed rent dep sys = Inl (Revert ''Agreement doesn't exist'')"
    if "\<not> agreementExists p (core sys)" "\<not> paused (core sys)"
      "owner (properties (core sys) p) = msg_sender e" "msg_sender e \<noteq> 0"
      "isActive (properties (core sys) p)" "t \<noteq> 0" "terms \<noteq> 0"
      "sd > block_timestamp e" "ed > sd" "rent > 0" "dep > 0"
      "active (currentParameters (compliance sys))"
    using that
    by (simp add: createAgreement_def Let_def require_True verifyContractCompliance_def
        getAgreementDetails_absent andThen_Inl)
  show ?thesis using fails fresh reason by blast
qed

theorem createAgreement_fails_without_agreement_witness:
  "\<not> agreementExists 1 (core registeredSystem)
   \<and> owner (properties (core registeredSystem) 1) = 10
   \<and> isActive (properties (core registeredSystem) 1)
   \<and> active (currentParameters (compliance registeredSystem))
   \<and> createAgreement (exampleEnv 10 0 1000) 1 20 5 2000 31538000 1000 2000 registeredSystem
       = Inl (Revert ''Agreement doesn't exist'')"
  using createAgreement_fails_without_agreement
    [of 1 registeredSystem "exampleEnv 10 0 1000" 20 5 2000 31538000 1000 2000]
  by (simp add: registeredSystem_eq agreementExists_def example_defs)

text \<open>
  C2 (as stated, refuted). The claim puts the ownership and activity checks before the
  checks of the arguments. The code runs them last: a caller who is not the owner of the
  property and passes the zero address as tenant is told that the tenant is invalid.
\<close>

theorem createAgreement_order_counterexample:
  "owner (properties (core exampleSystem) 1) = 10
   \<and> msg_sender (exampleEnv 20 0 1000) \<noteq> 10
   \<and> createAgreement (exampleEnv 20 0 1000) 1 0 5 2000 31538000 1000 2000 exampleSystem
       = Inl (Revert ''Invalid tenant address'')
   \<and> createAgreement (exampleEnv 20 0 1000) 1 0 5 2000 31538000 1000 2000 exampleSystem
       \<noteq> Inl (Revert ''Not property owner'')"
  by (simp add: createAgreement_def example_defs require_def Let_def)

text \<open>
  C2 (amended). \<open>createAgreement\<close> checks, in this order and with the first failure
  winning: the contract is not paused; the property exists (its owner is not zero); the
  tenant is not zero; the terms are not the zero digest; the start date is after now; the
  end date is after the start date; the rent is positive; the deposit is positive; the
  caller is the owner of the property; the property is active. So a call on a property
  that is inactive, or by a caller who is not its owner, always fails, and it fails with
  the ownership or activity error exactly when the arguments pass all earlier checks.
\<close>

theorem createAgreement_check_order:
  "(paused (core sys) \<longrightarrow>
      createAgreement e p t terms sd ed rent dep sys = Inl (Revert ''Pausable: paused''))
   \<and> (\<not> paused (core sys) \<and> owner (properties (core sys) p) = 0 \<longrightarrow>
      createAgreement e p t terms sd ed rent dep sys = Inl (Revert ''Property doesn't exist''))
   \<and> (\<not> paused (core sys) \<and> owner (properties (core sys) p) \<noteq> 0 \<and> t = 0 \<longrightarrow>
      createAgreement e p t terms sd ed rent dep sys = Inl (Revert ''Invalid tenant address''))
   \<and> (\<not> paused (core sys) \<and> owner (properties (core sys) p) \<noteq> 0 \<and> t \<noteq> 0 \<and> terms = 0 \<longrightarrow>
      createAgreement e p t terms sd ed rent dep sys = Inl (Revert ''Invalid terms''))
   \<and> (\<not> paused (core sys) \<and> owner (properties (core sys) p) \<noteq> 0 \<and> t \<noteq> 0 \<and> terms \<noteq> 0
        \<and> sd \<le> block_timestamp e \<longrightarrow>
      createAgreement e p t terms sd ed rent dep sys = Inl (Revert ''Invalid start date''))
   \<and> (\<not> paused (core sys) \<and> owner (properties (core sys) p) \<noteq> 0 \<and> t \<noteq> 0 \<and> terms \<noteq> 0
        \<and> sd > block_timestamp e \<and> ed \<le> sd \<longrightarrow>
      createAgreement e p t terms sd ed rent dep sys = Inl (Revert ''Invalid end date''))
   \<and> (\<not> paused (core sys) \<and> owner (properties (core sys) p) \<noteq> 0 \<and> t \<noteq> 0 \<and> terms \<noteq> 0
        \<and> sd > block_timestamp e \<and> ed > sd \<and> rent = 0 \<longrightarrow>
      createAgreement e p t terms sd ed rent dep sys = Inl (Revert ''Invalid rent amount''))
   \<and> (\<not> paused (core sys) \<and> owner (properties (core sys) p) \<noteq> 0 \<and> t \<noteq> 0 \<and> terms \<noteq> 0
        \<and> sd > block_timestamp e \<and> ed > sd \<and> rent > 0 \<and> dep = 0 \<longrightarrow>
      createAgreement e p t terms sd ed rent dep sys = Inl (Revert ''Invalid deposit amount''))
   \<and> (\<not> paused (core sys) \<and> owner (properties (core sys) p) \<noteq> 0 \<and> t \<noteq> 0 \<and> terms \<noteq> 0
        \<and> sd > block_timestamp e \<and> ed > sd \<and> rent > 0 \<and> dep > 0
        \<and> owner (properties (core sys) p) \<noteq> msg_sender e \<longrightarrow>
      createAgreement e p t terms sd ed rent dep sys = Inl (Revert ''Not property owner''))
   \<and> (\<not> paused (core sys) \<and> owner (properties (core sys) p) \<noteq> 0 \<and> t \<noteq> 0 \<and> terms \<noteq> 0
        \<and> sd > block_timestamp e \<and> ed > sd \<and> rent > 0 \<and> dep > 0
        \<and> owner (properties (core sys) p) = msg_sender e
        \<and> \<not> isActive (properties (core sys) p) \<longrightarrow>
      createAgreement e p t terms sd ed rent dep sys = Inl (Revert ''Property not active''))
   \<and> (owner (properties (core sys) p) \<noteq> msg_sender e \<or> \<not> isActive (properties (core sys) p)
        \<longrightarrow> (\<exists>err. createAgreement e p t terms sd ed rent dep sys = Inl err))"
proof -
  have fails: "\<exists>err. createAgreement e p t terms sd ed rent dep sys = Inl err"
    if "owner (properties (core sys) p) \<noteq> msg_sender e \<or> \<not> isActive (properties (core sys) p)"
  proof -
    have "createAgreement e p t terms sd ed rent dep sys \<noteq> Inr r" for r
      using that by (auto simp: createAgreement_def Let_def require_Inr_iff)
    then show ?thesis by (simp add: not_Inr_iff [symmetric])
  qed
  show ?thesis
    using fails by (simp add: createAgreement_def Let_def require_def)
qed

theorem createAgreement_check_order_witness:
  "createAgreement (exampleEnv 20 0 1000) 1 20 5 2000 31538000 1000 2000 exampleSystem
     = Inl (Revert ''Not property owner'')
   \<and> createAgreement (exampleEnv 20 0 1000) 1 20 5 2000 31538000 0 2000 exampleSystem
     = Inl (Revert ''Invalid rent amount'')
   \<and> createAgreement (exampleEnv 20 0 1000) 1 20 5 1000 31538000 1000 2000 exampleSystem
     = Inl (Revert ''Invalid start date'')
   \<and> createAgreement (exampleEnv 10 0 1000) 2 20 5 2000 31538000 1000 2000 exampleSystem
     = Inl (Revert ''Property doesn't exist'')"
  using createAgreement_check_order
      [of exampleSystem "exampleEnv 20 0 1000" 1 20 5 2000 31538000 1000 2000]
    createAgreement_check_order
      [of exampleSystem "exampleEnv 20 0 1000" 1 20 5 2000 31538000 0 2000]
    createAgreement_check_order
      [of exampleSystem "exampleEnv 20 0 1000" 1 20 5 1000 31538000 1000 2000]
    createAgreement_check_order
      [of exampleSystem "exampleEnv 10 0 1000" 2 20 5 2000 31538000 1000 2000]
  by (simp add: example_defs)

section \<open>Termination of an agreement\<close>





section \<open>What each call can write\<close>

lemma processRentPayment_Inr:
  "processRentPayment e a rc pm = Inr (b, pm') \<Longrightarrow> depositBalances pm' = depositBalances pm"
  by (auto simp: processRentPayment_def onlyValidAgreement_def updateOutstandingBalance_def
      require_Inr_iff andThen_Inr_iff Let_def split: prod.splits)

lemma processDeposit_Inr:
  "processDeposit e a rc pm = Inr (b, pm')
   \<Longrightarrow> depositBalances pm' = (depositBalances pm)(a := depositBalances pm a + msg_value e)"
  by (auto simp: processDeposit_def onlyValidAgreement_def checked_add_def
      require_Inr_iff andThen_Inr_iff Let_def split: prod.splits if_splits)

lemma releaseDeposit_Inr:
  assumes "releaseDeposit e a amt r pm = Inr (b, pm')"
  shows "amt \<le> depositBalances pm a"
    and "depositBalances pm' = (depositBalances pm)(a := depositBalances pm a - amt)"
  using assms
  by (auto simp: releaseDeposit_def onlyAuthorized_def checked_sub_def
      require_Inr_iff andThen_Inr_iff Let_def split: if_splits)

lemma handleLateFees_Inr:
  "handleLateFees e a rc pm = Inr (fee, pm') \<Longrightarrow> depositBalances pm' = depositBalances pm"
  by (auto simp: handleLateFees_def onlyAuthorized_def
      require_Inr_iff andThen_Inr_iff Let_def split: if_splits)

lemma emergencyWithdraw_Inr:
  "emergencyWithdraw e r pm = Inr pm' \<Longrightarrow> pm' = pm"
  by (auto simp: emergencyWithdraw_def onlyAuthorized_def require_Inr_iff)

lemma step_cases:
  obtains (reverted) "\<not> succeeds c sys" "step c sys = sys"
  | (returned) sys' where "succeeds c sys" "exec (fst c) (snd c) sys = Inr sys'"
      "step c sys = sys'"
  by (cases "exec (fst c) (snd c) sys") (simp_all add: succeeds_def step_def)

lemma increment_below: "v < 2 ^ 256 - 1 \<Longrightarrow> increment v = v + 1"
  by (simp add: increment_def)

text \<open>The deposit balance of an agreement moves by exactly the deposit paid or released.\<close>

lemma step_deposit_balance:
  "depositBalances (payments (step c sys)) a
     + sum_list (if succeeds c sys then releaseOf a (snd c) else [])
   = depositBalances (payments sys) a
     + sum_list (if succeeds c sys then depositOf a (fst c) (snd c) else [])"
proof (cases c sys rule: step_cases)
  case reverted
  then show ?thesis by simp
next
  case (returned sys')
  obtain e c' where c: "c = (e, c')" by (cases c)
  have ex: "exec e c' sys = Inr sys'" using returned(2) c by simp
  have "depositBalances (payments sys') a + sum_list (releaseOf a c')
        = depositBalances (payments sys) a + sum_list (depositOf a e c')"
  proof (cases c')
    case (CreateAgreement p t terms sd ed rent dep)
    with ex show ?thesis
      by (auto simp: andThen_Inr_iff dest: createAgreement_Inr(6))
  next
    case (TerminateAgreement a')
    with ex show ?thesis
      by (auto dest: terminateAgreement_Inr(6))
  next
    case (ProcessRentPayment a')
    with ex show ?thesis
      by (auto simp: andThen_Inr_iff dest: processRentPayment_Inr)
  next
    case (ProcessDeposit a')
    with ex show ?thesis
      by (auto simp: andThen_Inr_iff dest: processDeposit_Inr)
  next
    case (ReleaseDeposit a' amt r)
    with ex obtain b pm' where rel: "releaseDeposit e a' amt r (payments sys) = Inr (b, pm')"
      and sys': "sys' = sys\<lparr>payments := pm'\<rparr>"
      by (auto simp: andThen_Inr_iff)
    note w = releaseDeposit_Inr [OF rel]
    show ?thesis using w(1) by (simp add: ReleaseDeposit sys' w(2))
  next
    case (HandleLateFees a')
    with ex show ?thesis
      by (auto simp: andThen_Inr_iff dest: handleLateFees_Inr)
  next
    case (EmergencyWithdraw r)
    with ex show ?thesis
      by (auto simp: andThen_Inr_iff dest: emergencyWithdraw_Inr)
  qed (use ex in \<open>auto simp: andThen_Inr_iff\<close>)
  with returned c show ?thesis by simp
qed

lemma run_deposit_balance:
  "depositBalances (payments (run cs sys)) a + sum_list (depositsReleased a cs sys)
   = depositBalances (payments sys) a + sum_list (depositsPaid a cs sys)"
proof (induction cs arbitrary: sys)
  case Nil
  show ?case by simp
next
  case (Cons c cs)
  from Cons.IH [of "step c sys"] step_deposit_balance [of c sys a]
  show ?case by simp
qed

text \<open>
  The status of an agreement whose id has been allocated is written only by
  \<open>terminateAgreement\<close>, from Active, and by \<open>updateAgreementStatus\<close>.
\<close>

lemma step_terminal_status:
  assumes "a \<le> agreementIds (core sys)" and "agreementIds (core sys) < 2 ^ 256 - 1"
    and "terminal (status (agreements (core sys) a))"
    and "\<not> isStatusUpdateOf a (snd c)"
  shows "status (agreements (core (step c sys)) a) = status (agreements (core sys) a)"
    and "agreementIds (core sys) \<le> agreementIds (core (step c sys))"
    and "agreementIds (core (step c sys)) \<le> agreementIds (core sys) + 1"
proof -
  have "status (agreements (core (step c sys)) a) = status (agreements (core sys) a)
        \<and> agreementIds (core sys) \<le> agreementIds (core (step c sys))
        \<and> agreementIds (core (step c sys)) \<le> agreementIds (core sys) + 1"
  proof (cases c sys rule: step_cases)
    case reverted
    then show ?thesis by simp
  next
    case (returned sys')
    obtain e c' where c: "c = (e, c')" by (cases c)
    have ex: "exec e c' sys = Inr sys'" using returned(2) c by simp
    have "status (agreements (core sys') a) = status (agreements (core sys) a)
          \<and> agreementIds (core sys) \<le> agreementIds (core sys')
          \<and> agreementIds (core sys') \<le> agreementIds (core sys) + 1"
    proof (cases c')
      case (RegisterProperty h)
      with ex show ?thesis
        by (auto simp: andThen_Inr_iff dest: registerProperty_Inr(2,3))
    next
      case (CreateAgreement p t terms sd ed rent dep)
      with ex obtain i where made: "createAgreement e p t terms sd ed rent dep sys = Inr (i, sys')"
        by (auto simp: andThen_Inr_iff)
      note w = createAgreement_Inr [OF made]
      have i: "i = agreementIds (core sys) + 1"
        using w(2) assms(2) by (simp add: increment_below)
      with assms(1) have "a \<noteq> i" by simp
      then show ?thesis using i by (simp add: w(3) w(8))
    next
      case (TerminateAgreement a')
      with ex have t: "terminateAgreement e a' sys = Inr sys'" by simp
      note w = terminateAgreement_Inr [OF t]
      have "a' \<noteq> a" using w(4) assms(3) by (auto simp: terminal_def)
      then show ?thesis by (simp add: w(5))
    next
      case (UpdateAgreementStatus a' st)
      with ex obtain s' where u: "updateAgreementStatus e a' st (core sys) = Inr s'"
        and sys': "sys' = sys\<lparr>core := s'\<rparr>"
        by (auto simp: andThen_Inr_iff)
      have "a' \<noteq> a" using assms(4) c UpdateAgreementStatus by simp
      then show ?thesis by (simp add: sys' updateAgreementStatus_Inr(5) [OF u])
    next
      case EmergencyShutdown
      with ex show ?thesis
        by (auto simp: andThen_Inr_iff dest: emergencyShutdown_Inr)
    next
      case ResumeOperation
      with ex show ?thesis
        by (auto simp: andThen_Inr_iff dest: resumeOperation_Inr)
    qed (use ex in \<open>auto simp: andThen_Inr_iff\<close>)
    with returned show ?thesis by simp
  qed
  then show "status (agreements (core (step c sys)) a) = status (agreements (core sys) a)"
    and "agreementIds (core sys) \<le> agreementIds (core (step c sys))"
    and "agreementIds (core (step c sys)) \<le> agreementIds (core sys) + 1"
    by simp_all
qed

lemma run_terminal_status:
  assumes "a \<le> agreementIds (core sys)"
    and "agreementIds (core sys) + length cs < 2 ^ 256"
    and "terminal (status (agreements (core sys) a))"
    and "\<forall>c \<in> set cs. \<not> isStatusUpdateOf a (snd c)"
  shows "status (agreements (core (run cs sys)) a) = status (agreements (core sys) a)"
  using assms
proof (induction cs arbitrary: sys)
  case Nil
  show ?case by simp
next
  case (Cons c cs)
  have room: "agreementIds (core sys) < 2 ^ 256 - 1"
    using Cons.prems(2) by simp
  have quiet: "\<not> isStatusUpdateOf a (snd c)"
    using Cons.prems(4) by simp
  note s = step_terminal_status [OF Cons.prems(1) room Cons.prems(3) quiet]
  have "status (agreements (core (run cs (step c sys))) a)
        = status (agreements (core (step c sys)) a)"
  proof (rule Cons.IH)
    show "a \<le> agreementIds (core (step c sys))" using Cons.prems(1) s(2) by simp
    show "agreementIds (core (step c sys)) + length cs < 2 ^ 256"
      using Cons.prems(2) s(3) by simp
    show "terminal (status (agreements (core (step c sys)) a))"
      using Cons.prems(3) s(1) by simp
    show "\<forall>c \<in> set cs. \<not> isStatusUpdateOf a (snd c)" using Cons.prems(4) by simp
  qed
  with s(1) show ?case by simp
qed

text \<open>
  The owner of a property whose id has been allocated is written by no call; its
  agreement history is only appended to.
\<close>

lemma step_owner:
  assumes "p \<le> propertyIds (core sys)" and "propertyIds (core sys) < 2 ^ 256 - 1"
  shows "owner (properties (core (step c sys)) p) = owner (properties (core sys) p)"
    and "\<exists>ids. agreementHistory (properties (core (step c sys)) p)
               = agreementHistory (properties (core sys) p) @ ids"
    and "propertyIds (core sys) \<le> propertyIds (core (step c sys))"
    and "propertyIds (core (step c sys)) \<le> propertyIds (core sys) + 1"
proof -
  have "owner (properties (core (step c sys)) p) = owner (properties (core sys) p)
        \<and> (\<exists>ids. agreementHistory (properties (core (step c sys)) p)
               = agreementHistory (properties (core sys) p) @ ids)
        \<and> propertyIds (core sys) \<le> propertyIds (core (step c sys))
        \<and> propertyIds (core (step c sys)) \<le> propertyIds (core sys) + 1"
  proof (cases c sys rule: step_cases)
    case reverted
    then show ?thesis by simp
  next
    case (returned sys')
    obtain e c' where c: "c = (e, c')" by (cases c)
    have ex: "exec e c' sys = Inr sys'" using returned(2) c by simp
    have "owner (properties (core sys') p) = owner (properties (core sys) p)
          \<and> (\<exists>ids. agreementHistory (properties (core sys') p)
               = agreementHistory (properties (core sys) p) @ ids)
          \<and> propertyIds (core sys) \<le> propertyIds (core sys')
          \<and> propertyIds (core sys') \<le> propertyIds (core sys) + 1"
    proof (cases c')
      case (RegisterProperty h)
      with ex obtain i s' where reg: "registerProperty e h (core sys) = Inr (i, s')"
        and sys': "sys' = sys\<lparr>core := s'\<rparr>"
        by (auto simp: andThen_Inr_iff)
      note w = registerProperty_Inr [OF reg]
      have i: "i = propertyIds (core sys) + 1"
        using w(1) assms(2) by (simp add: increment_below)
      with assms(1) have "p \<noteq> i" by simp
      then show ?thesis using i by (simp add: sys' w(5) w(6))
    next
      case (CreateAgreement q t terms sd ed rent dep)
      with ex obtain i where made: "createAgreement e q t terms sd ed rent dep sys = Inr (i, sys')"
        by (auto simp: andThen_Inr_iff)
      note w = createAgreement_Inr [OF made]
      show ?thesis by (simp add: w(4) w(9))
    next
      case (TerminateAgreement a')
      with ex have t: "terminateAgreement e a' sys = Inr sys'" by simp
      show ?thesis by (simp add: terminateAgreement_Inr(5) [OF t])
    next
      case (UpdateAgreementStatus a' st)
      with ex obtain s' where u: "updateAgreementStatus e a' st (core sys) = Inr s'"
        and sys': "sys' = sys\<lparr>core := s'\<rparr>"
        by (auto simp: andThen_Inr_iff)
      show ?thesis by (simp add: sys' updateAgreementStatus_Inr(5) [OF u])
    next
      case EmergencyShutdown
      with ex show ?thesis
        by (auto simp: andThen_Inr_iff dest: emergencyShutdown_Inr)
    next
      case ResumeOperation
      with ex show ?thesis
        by (auto simp: andThen_Inr_iff dest: resumeOperation_Inr)
    qed (use ex in \<open>auto simp: andThen_Inr_iff\<close>)
    with returned show ?thesis by simp
  qed
  then show "owner (properties (core (step c sys)) p) = owner (properties (core sys) p)"
    and "\<exists>ids. agreementHistory (properties (core (step c sys)) p)
               = agreementHistory (properties (core sys) p) @ ids"
    and "propertyIds (core sys) \<le> propertyIds (core (step c sys))"
    and "propertyIds (core (step c sys)) \<le> propertyIds (core sys) + 1"
    by simp_all
qed

lemma run_owner:
  assumes "p \<le> propertyIds (core sys)"
    and "propertyIds (core sys) + length cs < 2 ^ 256"
  shows "owner (properties (core (run cs sys)) p) = owner (properties (core sys) p)
         \<and> (\<exists>ids. agreementHistory (properties (core (run cs sys)) p)
               = agreementHistory (properties (core sys) p) @ ids)"
  using assms
proof (induction cs arbitrary: sys)
  case Nil
  show ?case by simp
next
  case (Cons c cs)
  have room: "propertyIds (core sys) < 2 ^ 256 - 1"
    using Cons.prems(2) by simp
  note s = step_owner [OF Cons.prems(1) room, of c]
  have later: "owner (properties (core (run cs (step c sys))) p)
          = owner (properties (core (step c sys)) p)
        \<and> (\<exists>ids. agreementHistory (properties (core (run cs (step c sys))) p)
               = agreementHistory (properties (core (step c sys)) p) @ ids)"
  proof (rule Cons.IH)
    show "p \<le> propertyIds (core (step c sys))" using Cons.prems(1) s(3) by simp
    show "propertyIds (core (step c sys)) + length cs < 2 ^ 256"
      using Cons.prems(2) s(4) by simp
  qed
  from s(2) later obtain ids1 ids2 where
    "agreementHistory (properties (core (run cs (step c sys))) p)
       = (agreementHistory (properties (core sys) p) @ ids1) @ ids2"
    by auto
  then have "\<exists>ids. agreementHistory (properties (core (run cs (step c sys))) p)
       = agreementHistory (properties (core sys) p) @ ids"
    by simp
  with s(1) later show ?case by simp
qed

section \<open>Terminal statuses\<close>

text \<open>
  C4 (as stated, refuted). A Terminated agreement is made Active again by
  \<open>updateAgreementStatus\<close>, which sets whatever status it is given.
\<close>

theorem terminal_status_counterexample:
  "status (agreements (core terminatedSystem) 1) = Terminated
   \<and> status (agreements (core (step (exampleEnv 1 0 3000, UpdateAgreementStatus 1 1)
        terminatedSystem)) 1) = Active"
  by (simp add: step_def updateAgreementStatus_def agreementExists_def require_def andThen_def
      status_of_uint8_def terminatedSystem_def example_defs)

text \<open>
  C4 (amended). Once the status of an agreement (one whose id has been allocated) is
  Terminated, Expired or Disputed, no trace of calls without an \<open>updateAgreementStatus\<close> on
  that agreement changes it, as long as the id counter does not wrap; in particular
  \<open>terminateAgreement\<close> fails on it. \<open>updateAgreementStatus\<close>, called by a holder of the
  UPDATE_AGREEMENT permission while the contract is not paused, sets any of the five
  statuses on any existing agreement, whatever its current status.
\<close>

theorem terminal_status_changes_only_by_update:
  "(a \<le> agreementIds (core sys) \<and> agreementIds (core sys) + length cs < 2 ^ 256
    \<and> terminal (status (agreements (core sys) a))
    \<and> (\<forall>c \<in> set cs. \<not> isStatusUpdateOf a (snd c)) \<longrightarrow>
      status (agreements (core (run cs sys)) a) = status (agreements (core sys) a))
   \<and> (terminal (status (agreements (core sys) a)) \<longrightarrow>
        (\<exists>err. terminateAgreement e a sys = Inl err))
   \<and> (\<not> paused (core sys) \<and> agreementExists a (core sys)
       \<and> hasPermission e (msg_sender e) ''UPDATE_AGREEMENT'' \<and> st \<le> 4 \<longrightarrow>
        (\<exists>s'. updateAgreementStatus e a st (core sys) = Inr s'
           \<and> status (agreements s' a) = status_of_uint8 st))"
proof -
  have no_terminate: "\<exists>err. terminateAgreement e a sys = Inl err"
    if "terminal (status (agreements (core sys) a))"
  proof -
    have "terminateAgreement e a sys \<noteq> Inr r" for r
      using that terminateAgreement_Inr(4) [of e a sys r] by (auto simp: terminal_def)
    then show ?thesis by (simp add: not_Inr_iff [symmetric])
  qed
  have update: "\<exists>s'. updateAgreementStatus e a st (core sys) = Inr s'
           \<and> status (agreements s' a) = status_of_uint8 st"
    if "\<not> paused (core sys)" "agreementExists a (core sys)"
      "hasPermission e (msg_sender e) ''UPDATE_AGREEMENT''" "st \<le> 4"
    using that by (simp add: updateAgreementStatus_def require_def)
  show ?thesis
    using run_terminal_status [of a sys cs] no_terminate update by blast
qed

theorem terminal_status_changes_only_by_update_witness:
  "1 \<le> agreementIds (core terminatedSystem)
   \<and> terminal (status (agreements (core terminatedSystem) 1))
   \<and> map (isStatusUpdateOf 1 \<circ> snd) mixedTrace = [False, False, False, False, False]
   \<and> status (agreements (core (run mixedTrace terminatedSystem)) 1) = Terminated
   \<and> (\<exists>err. terminateAgreement (exampleEnv 10 0 3000) 1 terminatedSystem = Inl err)
   \<and> (\<exists>s'. updateAgreementStatus (exampleEnv 1 0 3000) 1 0 (core terminatedSystem) = Inr s'
          \<and> status (agreements s' 1) = Pending)"
proof -
  have h: "1 \<le> agreementIds (core terminatedSystem)"
    "agreementIds (core terminatedSystem) + length mixedTrace < 2 ^ 256"
    "terminal (status (agreements (core terminatedSystem) 1))"
    "\<forall>c \<in> set mixedTrace. \<not> isStatusUpdateOf 1 (snd c)"
    "status (agreements (core terminatedSystem) 1) = Terminated"
    "\<not> paused (core terminatedSystem)" "agreementExists 1 (core terminatedSystem)"
    "hasPermission (exampleEnv 1 0 3000) (msg_sender (exampleEnv 1 0 3000)) ''UPDATE_AGREEMENT''"
    "status_of_uint8 0 = Pending"
    by (simp_all add: terminal_def mixedTrace_def terminatedSystem_def agreementExists_def
        status_of_uint8_def example_defs)
  note t = terminal_status_changes_only_by_update
    [where a = 1 and sys = terminatedSystem and cs = mixedTrace
       and e = "exampleEnv 10 0 3000" and st = 0]
  note u = terminal_status_changes_only_by_update
    [where a = 1 and sys = terminatedSystem and cs = "[]"
       and e = "exampleEnv 1 0 3000" and st = 0]
  have "status (agreements (core (run mixedTrace terminatedSystem)) 1) = Terminated"
    using t h(1-5) by simp
  moreover have "\<exists>err. terminateAgreement (exampleEnv 10 0 3000) 1 terminatedSystem = Inl err"
    using t h(3) by blast
  moreover have "\<exists>s'. updateAgreementStatus (exampleEnv 1 0 3000) 1 0 (core terminatedSystem) = Inr s'
          \<and> status (agreements s' 1) = Pending"
    using u h(6-9) by simp
  moreover have "map (isStatusUpdateOf 1 \<circ> snd) mixedTrace = [False, False, False, False, False]"
    by (simp add: mixedTrace_def)
  ultimately show ?thesis using h(1,3) by blast
qed

section \<open>The deposit ledger\<close>

text \<open>
  C5. Along every trace of calls, from any state, the deposit balance of an agreement
  moves by the amounts of the successful \<open>processDeposit\<close> calls on it minus the amounts
  of the successful \<open>releaseDeposit\<close> calls on it; started from a balance of zero, the
  stored balance is the sum of the amounts paid minus the sum of the amounts released.
  And \<open>releaseDeposit\<close> fails whenever the amount asked for exceeds the balance that the
  trace has reached, with the insufficient-balance error when the caller is authorised
  and the recipient is not the zero address.
\<close>

theorem deposit_balance_ledger:
  "getDepositBalance a (payments (run cs sys)) + sum_list (depositsReleased a cs sys)
     = getDepositBalance a (payments sys) + sum_list (depositsPaid a cs sys)
   \<and> (getDepositBalance a (payments sys) = 0 \<longrightarrow>
        int (getDepositBalance a (payments (run cs sys)))
          = int (sum_list (depositsPaid a cs sys)) - int (sum_list (depositsReleased a cs sys)))
   \<and> (amt > getDepositBalance a (payments (run cs sys)) \<longrightarrow>
        (\<exists>err. releaseDeposit e a amt r (payments (run cs sys)) = Inl err)
        \<and> \<not> succeeds (e, ReleaseDeposit a amt r) (run cs sys))
   \<and> (amt > getDepositBalance a (payments (run cs sys))
       \<and> (hasRole e (msg_sender e) ''PAYMENT_MANAGER'' \<or> hasRole e (msg_sender e) ''SYSTEM_ADMIN'')
       \<and> r \<noteq> 0 \<longrightarrow>
        releaseDeposit e a amt r (payments (run cs sys))
          = Inl (Revert ''Insufficient deposit balance''))"
proof -
  let ?pm = "payments (run cs sys)"
  have ledger: "getDepositBalance a ?pm + sum_list (depositsReleased a cs sys)
     = getDepositBalance a (payments sys) + sum_list (depositsPaid a cs sys)"
    using run_deposit_balance [of cs sys a] by (simp add: getDepositBalance_def)
  then have from_zero: "int (getDepositBalance a ?pm)
          = int (sum_list (depositsPaid a cs sys)) - int (sum_list (depositsReleased a cs sys))"
    if "getDepositBalance a (payments sys) = 0"
    using that by simp
  have refused: "releaseDeposit e a amt r ?pm \<noteq> Inr x" if "amt > getDepositBalance a ?pm" for x
    using that releaseDeposit_Inr(1) [of e a amt r ?pm "fst x" "snd x"]
    by (auto simp: getDepositBalance_def)
  then have fails: "\<exists>err. releaseDeposit e a amt r ?pm = Inl err"
    if "amt > getDepositBalance a ?pm"
    using that by (simp add: not_Inr_iff [symmetric])
  then have no_success: "\<not> succeeds (e, ReleaseDeposit a amt r) (run cs sys)"
    if "amt > getDepositBalance a ?pm"
    using that by (auto simp: succeeds_def andThen_def)
  have reason: "releaseDeposit e a amt r ?pm = Inl (Revert ''Insufficient deposit balance'')"
    if "amt > getDepositBalance a ?pm"
      "hasRole e (msg_sender e) ''PAYMENT_MANAGER'' \<or> hasRole e (msg_sender e) ''SYSTEM_ADMIN''"
      "r \<noteq> 0"
    using that
    by (simp add: releaseDeposit_def onlyAuthorized_def require_def getDepositBalance_def)
  show ?thesis
    using ledger from_zero fails no_success reason by blast
qed

lemma exampleEnv_sel:
  "msg_sender (exampleEnv who v now) = who"
  "msg_value (exampleEnv who v now) = v"
  "block_timestamp (exampleEnv who v now) = now"
  by (simp_all add: exampleEnv_def)

lemma exampleSystem_deposit_step:
  assumes "agreements (core sys) = agreements (core exampleSystem)"
  shows "exec (exampleEnv who v now) (ProcessDeposit 1) sys =
     (if 2000 \<le> v \<and> depositBalances (payments sys) 1 + v \<le> MAX_UINT256
      then Inr (sys\<lparr>payments := (payments sys)\<lparr>
             paymentHistory := (paymentHistory (payments sys))(1 :=
                paymentHistory (payments sys) 1 @
                  [\<lparr>timestamp = now, amount = v, paymentType = Deposit, confirmed = True\<rparr>]),
             depositBalances := (depositBalances (payments sys))(1 :=
                depositBalances (payments sys) 1 + v)\<rparr>\<rparr>)
      else if 2000 \<le> v then Inl Panic else Inl (Revert ''Insufficient deposit''))"
  by (simp add: processDeposit_def onlyValidAgreement_def getAgreementDetails_def
      agreementExists_def assms require_def andThen_def checked_add_def Let_def example_defs)

lemma exampleSystem_release_step:
  "exec (exampleEnv who v now) (ReleaseDeposit 1 amt 20) sys =
     (if amt \<le> depositBalances (payments sys) 1
      then Inr (sys\<lparr>payments := (payments sys)\<lparr>
             depositBalances := (depositBalances (payments sys))(1 :=
                depositBalances (payments sys) 1 - amt)\<rparr>\<rparr>)
      else Inl (Revert ''Insufficient deposit balance''))"
  by (simp add: releaseDeposit_def onlyAuthorized_def require_def andThen_def checked_sub_def
      Let_def exampleEnv_def)

theorem deposit_balance_ledger_witness:
  "getDepositBalance 1 (payments exampleSystem) = 0
   \<and> depositsPaid 1 depositTrace exampleSystem = [2000, 2500]
   \<and> depositsReleased 1 depositTrace exampleSystem = [1500]
   \<and> getDepositBalance 1 (payments (run depositTrace exampleSystem)) = 3000
   \<and> releaseDeposit (exampleEnv 1 0 3400) 1 3001 20 (payments (run depositTrace exampleSystem))
       = Inl (Revert ''Insufficient deposit balance'')"
proof -
  have start: "getDepositBalance 1 (payments exampleSystem) = 0"
    by (simp add: getDepositBalance_def example_defs)
  have ag: "agreements (core exampleSystem) = agreements (core exampleSystem)" by simp
  have paid: "depositsPaid 1 depositTrace exampleSystem = [2000, 2500]"
    and released: "depositsReleased 1 depositTrace exampleSystem = [1500]"
    using start
    by (simp_all add: depositTrace_def succeeds_def step_def exampleSystem_deposit_step
        exampleSystem_release_step getDepositBalance_def MAX_UINT256_def exampleEnv_sel
        del: exec.simps One_nat_def)
  note t = deposit_balance_ledger
    [where a = 1 and sys = exampleSystem and cs = depositTrace and amt = 3001
       and e = "exampleEnv 1 0 3400" and r = 20]
  have balance: "getDepositBalance 1 (payments (run depositTrace exampleSystem)) = 3000"
    using t start paid released by simp
  have auth: "hasRole (exampleEnv 1 0 3400) (msg_sender (exampleEnv 1 0 3400)) ''SYSTEM_ADMIN''"
    by (simp add: exampleEnv_def)
  have "releaseDeposit (exampleEnv 1 0 3400) 1 3001 20 (payments (run depositTrace exampleSystem))
       = Inl (Revert ''Insufficient deposit balance'')"
    using t balance auth by simp
  with start paid released balance show ?thesis by blast
qed

section \<open>Rent payments\<close>

lemma nat_max_int_diff: "nat (max (int x - int y) 0) = x - y"
  by (cases "y \<le> x") (simp_all add: max_def nat_diff_distrib)

lemma totalPaidLoop_sum:
  "totalPaid + rentPaid records \<le> MAX_UINT256
   \<Longrightarrow> totalPaidLoop records totalPaid = Inr (totalPaid + rentPaid records)"
proof (induction records arbitrary: totalPaid)
  case Nil
  then show ?case by (simp add: rentPaid_def)
next
  case (Cons r records)
  show ?case
  proof (cases "paymentType r = Rent \<and> confirmed r")
    case True
    then have split: "rentPaid (r # records) = amount r + rentPaid records"
      by (simp add: rentPaid_def)
    with Cons.prems have "totalPaid + amount r \<le> MAX_UINT256"
      and "(totalPaid + amount r) + rentPaid records \<le> MAX_UINT256"
      by simp_all
    with Cons.IH [of "totalPaid + amount r"] True split show ?thesis
      by (simp add: checked_add_def andThen_def)
  next
    case False
    then have "rentPaid (r # records) = rentPaid records"
      by (auto simp: rentPaid_def)
    with Cons.prems Cons.IH [of totalPaid] False show ?thesis by auto
  qed
qed

lemma rentPaid_append_rent:
  "rentPaid (records @ [\<lparr>timestamp = ts, amount = v, paymentType = Rent, confirmed = True\<rparr>])
     = rentPaid records + v"
  by (simp add: rentPaid_def)

lemma getAgreementDetails_present:
  "agreementExists a rc \<Longrightarrow>
   getAgreementDetails a rc =
     Inr (propertyId (agreements rc a), landlord (agreements rc a), tenant (agreements rc a),
          startDate (agreements rc a), endDate (agreements rc a), rentAmount (agreements rc a),
          depositAmount (agreements rc a), uint8_of_status (status (agreements rc a)),
          termsHash (agreements rc a))"
  by (simp add: getAgreementDetails_def require_def Let_def)

lemma uint8_of_status_Active: "(uint8_of_status st = Suc 0) = (st = Active)"
  by (cases st) simp_all

lemma onlyValidAgreement_Active:
  "agreementExists a rc \<Longrightarrow> status (agreements rc a) = Active
   \<Longrightarrow> onlyValidAgreement a rc k = k"
  by (simp add: onlyValidAgreement_def getAgreementDetails_present andThen_def require_def)

lemma onlyValidAgreement_not_Active:
  "agreementExists a rc \<Longrightarrow> status (agreements rc a) \<noteq> Active
   \<Longrightarrow> onlyValidAgreement a rc k = Inl (Revert ''Agreement not active'')"
  by (simp add: onlyValidAgreement_def getAgreementDetails_present andThen_def require_def
      uint8_of_status_Active)

lemma onlyValidAgreement_absent:
  "\<not> agreementExists a rc
   \<Longrightarrow> onlyValidAgreement a rc k = Inl (Revert ''Agreement doesn't exist'')"
  by (simp add: onlyValidAgreement_def getAgreementDetails_absent andThen_def)

lemma updateOutstandingBalance_value:
  assumes "agreementExists a rc"
    and "startDate (agreements rc a) \<le> block_timestamp e"
    and "block_timestamp e \<le> MAX_UINT256"
    and "rentAmount (agreements rc a)
           * ((block_timestamp e - startDate (agreements rc a)) div (30 * 86400) + 1)
         \<le> MAX_UINT256"
    and "rentPaid (paymentHistory pm a) \<le> MAX_UINT256"
  shows "updateOutstandingBalance e a rc pm =
     Inr (pm\<lparr>outstandingBalance := (outstandingBalance pm)(a :=
        rentAmount (agreements rc a)
           * ((block_timestamp e - startDate (agreements rc a)) div (30 * 86400) + 1)
        - rentPaid (paymentHistory pm a))\<rparr>)"
proof -
  have months: "(block_timestamp e - startDate (agreements rc a)) div (30 * 86400) + 1
                  \<le> MAX_UINT256"
  proof -
    have "(block_timestamp e - startDate (agreements rc a)) div (30 * 86400)
            \<le> block_timestamp e div 2"
      by (rule order_trans [OF div_le_mono [OF diff_le_self]]) (simp add: div_le_mono2)
    moreover have "block_timestamp e div 2 + 1 \<le> MAX_UINT256"
      using assms(3) by (simp add: MAX_UINT256_def)
    ultimately show ?thesis by linarith
  qed
  have loop: "totalPaidLoop (paymentHistory pm a) 0 = Inr (rentPaid (paymentHistory pm a))"
    using totalPaidLoop_sum [of 0 "paymentHistory pm a"] assms(5) by simp
  show ?thesis
    using assms(2,4) months
    by (simp add: updateOutstandingBalance_def getAgreementDetails_present [OF assms(1)]
        andThen_def checked_sub_def checked_add_def checked_mul_def loop Let_def)
qed

text \<open>
  C6 (as stated, refuted). With the agreement Active and the rent paid in full, the call
  still reverts when a checked operation of the balance update leaves \<open>uint256\<close>: with
  a rent of \<open>2 ^ 255\<close>, in the second month, the expected total \<open>rent * 2\<close> overflows.
  It reverts as well before the start date of the agreement (the second conjunct), where
  the checked subtraction \<open>now - startDate\<close> underflows.
\<close>

theorem processRentPayment_counterexample:
  "status (agreements (core hugeRentSystem) 1) = Active
   \<and> rentAmount (agreements (core hugeRentSystem) 1) = 2 ^ 255
   \<and> processRentPayment (exampleEnv 20 (2 ^ 255) (2000 + 30 * 86400)) 1
        (core hugeRentSystem) (payments hugeRentSystem) = Inl Panic
   \<and> status (agreements (core exampleSystem) 1) = Active
   \<and> rentAmount (agreements (core exampleSystem) 1) = 1000
   \<and> startDate (agreements (core exampleSystem) 1) = 2000
   \<and> processRentPayment (exampleEnv 20 1000 1000) 1
        (core exampleSystem) (payments exampleSystem) = Inl Panic"
  by (simp add: processRentPayment_def onlyValidAgreement_def getAgreementDetails_def
      agreementExists_def updateOutstandingBalance_def require_def andThen_def Let_def
      checked_sub_def checked_add_def checked_mul_def MAX_UINT256_def hugeRentSystem_def
      example_defs)

text \<open>
  C6 (amended). \<open>processRentPayment\<close> reverts when the agreement does not exist or its
  status is not Active (Pending included), and reverts with the insufficient-payment
  error when the value paid is below the rent. Otherwise, when now is not before the
  start date and the expected total \<open>rent * (months + 1)\<close> and the sum of the confirmed
  Rent payments fit in \<open>uint256\<close>, it appends a confirmed Rent record, sets the last
  payment date to now and sets the outstanding balance to
  \<open>max (rent * (months + 1) - paid) 0\<close>, where \<open>months = (now - startDate) div 30 days\<close>
  and \<open>paid\<close> is the sum of all confirmed Rent payments, the new one included. When the
  expected total does not fit, the call reverts.
\<close>

theorem processRentPayment_ledger:
  "(\<not> agreementExists a rc \<longrightarrow>
      processRentPayment e a rc pm = Inl (Revert ''Agreement doesn't exist''))
   \<and> (agreementExists a rc \<and> status (agreements rc a) \<noteq> Active \<longrightarrow>
      processRentPayment e a rc pm = Inl (Revert ''Agreement not active''))
   \<and> (agreementExists a rc \<and> status (agreements rc a) = Active
       \<and> msg_value e < rentAmount (agreements rc a) \<longrightarrow>
      processRentPayment e a rc pm = Inl (Revert ''Insufficient payment''))
   \<and> (agreementExists a rc \<and> status (agreements rc a) = Active
       \<and> rentAmount (agreements rc a) \<le> msg_value e
       \<and> startDate (agreements rc a) \<le> block_timestamp e
       \<and> block_timestamp e \<le> MAX_UINT256
       \<and> rentAmount (agreements rc a)
            * ((block_timestamp e - startDate (agreements rc a)) div (30 * 86400) + 1)
          \<le> MAX_UINT256
       \<and> rentPaid (paymentHistory pm a) + msg_value e \<le> MAX_UINT256 \<longrightarrow>
      processRentPayment e a rc pm =
        Inr (True, pm\<lparr>
          paymentHistory := (paymentHistory pm)(a := paymentHistory pm a @
             [\<lparr>timestamp = block_timestamp e, amount = msg_value e, paymentType = Rent,
               confirmed = True\<rparr>]),
          lastPaymentDate := (lastPaymentDate pm)(a := block_timestamp e),
          outstandingBalance := (outstandingBalance pm)(a :=
             nat (max (int (rentAmount (agreements rc a))
                        * (int ((block_timestamp e - startDate (agreements rc a))
                                 div (30 * 86400)) + 1)
                       - int (rentPaid (paymentHistory pm a) + msg_value e)) 0))\<rparr>))
   \<and> (agreementExists a rc \<and> status (agreements rc a) = Active
       \<and> rentAmount (agreements rc a) \<le> msg_value e
       \<and> startDate (agreements rc a) \<le> block_timestamp e
       \<and> block_timestamp e \<le> MAX_UINT256
       \<and> rentAmount (agreements rc a)
            * ((block_timestamp e - startDate (agreements rc a)) div (30 * 86400) + 1)
          > MAX_UINT256 \<longrightarrow>
      processRentPayment e a rc pm = Inl Panic)"
proof -
  let ?ag = "agreements rc a"
  let ?months = "(block_timestamp e - startDate ?ag) div (30 * 86400)"
  let ?new = "\<lparr>timestamp = block_timestamp e, amount = msg_value e, paymentType = Rent,
               confirmed = True\<rparr>"
  let ?pm2 = "pm\<lparr>paymentHistory := (paymentHistory pm)(a := paymentHistory pm a @ [?new]),
                lastPaymentDate := (lastPaymentDate pm)(a := block_timestamp e)\<rparr>"
  have absent: "processRentPayment e a rc pm = Inl (Revert ''Agreement doesn't exist'')"
    if "\<not> agreementExists a rc"
    using that by (simp add: processRentPayment_def onlyValidAgreement_absent)
  have inactive: "processRentPayment e a rc pm = Inl (Revert ''Agreement not active'')"
    if "agreementExists a rc" "status ?ag \<noteq> Active"
    using that by (simp add: processRentPayment_def onlyValidAgreement_not_Active)
  have body: "processRentPayment e a rc pm =
      require (msg_value e \<ge> rentAmount ?ag) ''Insufficient payment''
        (andThen (updateOutstandingBalance e a rc ?pm2) (\<lambda>pm3. Inr (True, pm3)))"
    if "agreementExists a rc" "status ?ag = Active"
    using that
    by (simp add: processRentPayment_def onlyValidAgreement_Active getAgreementDetails_present
        andThen_Inr Let_def)
  have short: "processRentPayment e a rc pm = Inl (Revert ''Insufficient payment'')"
    if "agreementExists a rc" "status ?ag = Active" "msg_value e < rentAmount ?ag"
    using that by (simp add: body require_def)
  have paid: "processRentPayment e a rc pm =
        Inr (True, pm\<lparr>
          paymentHistory := (paymentHistory pm)(a := paymentHistory pm a @ [?new]),
          lastPaymentDate := (lastPaymentDate pm)(a := block_timestamp e),
          outstandingBalance := (outstandingBalance pm)(a :=
             nat (max (int (rentAmount ?ag) * (int ?months + 1)
                       - int (rentPaid (paymentHistory pm a) + msg_value e)) 0))\<rparr>)"
    if ex: "agreementExists a rc" and act: "status ?ag = Active"
      and enough: "rentAmount ?ag \<le> msg_value e"
      and started: "startDate ?ag \<le> block_timestamp e"
      and typed: "block_timestamp e \<le> MAX_UINT256"
      and fits: "rentAmount ?ag * (?months + 1) \<le> MAX_UINT256"
      and sum_fits: "rentPaid (paymentHistory pm a) + msg_value e \<le> MAX_UINT256"
  proof -
    have hist: "rentPaid (paymentHistory ?pm2 a) = rentPaid (paymentHistory pm a) + msg_value e"
      by (simp add: rentPaid_append_rent)
    have upd: "updateOutstandingBalance e a rc ?pm2 =
       Inr (?pm2\<lparr>outstandingBalance := (outstandingBalance ?pm2)(a :=
          rentAmount ?ag * (?months + 1) - rentPaid (paymentHistory ?pm2 a))\<rparr>)"
      by (rule updateOutstandingBalance_value [OF ex started typed fits])
         (simp only: hist sum_fits)
    have arith: "nat (max (int (rentAmount ?ag) * (int ?months + 1)
                       - int (rentPaid (paymentHistory pm a) + msg_value e)) 0)
                 = rentAmount ?ag * (?months + 1) - (rentPaid (paymentHistory pm a) + msg_value e)"
    proof -
      have "int (rentAmount ?ag) * (int ?months + 1) = int (rentAmount ?ag * (?months + 1))"
        by (simp add: algebra_simps)
      then show ?thesis by (simp only: nat_max_int_diff)
    qed
    have upd2: "updateOutstandingBalance e a rc ?pm2 =
       Inr (?pm2\<lparr>outstandingBalance := (outstandingBalance ?pm2)(a :=
          nat (max (int (rentAmount ?ag) * (int ?months + 1)
                       - int (rentPaid (paymentHistory pm a) + msg_value e)) 0))\<rparr>)"
      using upd by (simp only: hist arith [symmetric])
    show ?thesis
      using enough by (simp add: body [OF ex act] require_def upd2 andThen_Inr)
  qed
  have overflow: "processRentPayment e a rc pm = Inl Panic"
    if ex: "agreementExists a rc" and act: "status ?ag = Active"
      and enough: "rentAmount ?ag \<le> msg_value e"
      and started: "startDate ?ag \<le> block_timestamp e"
      and typed: "block_timestamp e \<le> MAX_UINT256"
      and big: "rentAmount ?ag * (?months + 1) > MAX_UINT256"
  proof -
    have months: "?months + 1 \<le> MAX_UINT256"
    proof -
      have "?months \<le> block_timestamp e div 2"
        by (rule order_trans [OF div_le_mono [OF diff_le_self]]) (simp add: div_le_mono2)
      moreover have "block_timestamp e div 2 + 1 \<le> MAX_UINT256"
        using typed by (simp add: MAX_UINT256_def)
      ultimately show ?thesis by linarith
    qed
    have "updateOutstandingBalance e a rc ?pm2 = Inl Panic"
      using started months big
      by (simp add: updateOutstandingBalance_def getAgreementDetails_present [OF ex]
          andThen_def checked_sub_def checked_add_def checked_mul_def Let_def)
    then show ?thesis
      using enough by (simp add: body [OF ex act] require_def andThen_Inl)
  qed
  show ?thesis
    using absent inactive short paid overflow by blast
qed

theorem processRentPayment_ledger_witness:
  "processRentPayment (exampleEnv 20 1000 3000) 1 (core pendingSystem) (payments pendingSystem)
     = Inl (Revert ''Agreement not active'')
   \<and> processRentPayment (exampleEnv 20 999 3000) 1 (core exampleSystem) (payments exampleSystem)
     = Inl (Revert ''Insufficient payment'')
   \<and> (\<exists>pm'. processRentPayment (exampleEnv 20 1000 (2000 + 31 * 86400)) 1
               (core exampleSystem) (payments exampleSystem) = Inr (True, pm')
         \<and> paymentHistory pm' 1 = [\<lparr>timestamp = 2000 + 31 * 86400, amount = 1000,
                                     paymentType = Rent, confirmed = True\<rparr>]
         \<and> lastPaymentDate pm' 1 = 2000 + 31 * 86400
         \<and> outstandingBalance pm' 1 = 1000)"
proof -
  have pending: "agreementExists 1 (core pendingSystem)"
    "status (agreements (core pendingSystem) 1) \<noteq> Active"
    by (simp_all add: pendingSystem_def agreementExists_def example_defs)
  have active: "agreementExists 1 (core exampleSystem)"
    "status (agreements (core exampleSystem) 1) = Active"
    "rentAmount (agreements (core exampleSystem) 1) = 1000"
    "startDate (agreements (core exampleSystem) 1) = 2000"
    "paymentHistory (payments exampleSystem) 1 = []"
    by (simp_all add: agreementExists_def example_defs)
  have envs: "msg_value (exampleEnv 20 v n) = v" "block_timestamp (exampleEnv 20 v n) = n" for v n
    by (simp_all add: exampleEnv_def)
  have "processRentPayment (exampleEnv 20 1000 3000) 1 (core pendingSystem) (payments pendingSystem)
     = Inl (Revert ''Agreement not active'')"
    using processRentPayment_ledger
      [where a = 1 and rc = "core pendingSystem" and pm = "payments pendingSystem"
         and e = "exampleEnv 20 1000 3000"] pending
    by blast
  moreover
  have "processRentPayment (exampleEnv 20 999 3000) 1 (core exampleSystem) (payments exampleSystem)
     = Inl (Revert ''Insufficient payment'')"
    using processRentPayment_ledger
      [where a = 1 and rc = "core exampleSystem" and pm = "payments exampleSystem"
         and e = "exampleEnv 20 999 3000"] active
    by (simp add: envs)
  moreover
  have "\<exists>pm'. processRentPayment (exampleEnv 20 1000 (2000 + 31 * 86400)) 1
               (core exampleSystem) (payments exampleSystem) = Inr (True, pm')
         \<and> paymentHistory pm' 1 = [\<lparr>timestamp = 2000 + 31 * 86400, amount = 1000,
                                     paymentType = Rent, confirmed = True\<rparr>]
         \<and> lastPaymentDate pm' 1 = 2000 + 31 * 86400
         \<and> outstandingBalance pm' 1 = 1000"
    using processRentPayment_ledger
      [where a = 1 and rc = "core exampleSystem" and pm = "payments exampleSystem"
         and e = "exampleEnv 20 1000 (2000 + 31 * 86400)"] active
    by (simp add: envs rentPaid_def MAX_UINT256_def)
  ultimately show ?thesis by blast
qed

section \<open>Late fees of the payment module\<close>

text \<open>
  C7 (as stated, refuted). More than five whole days after the start date, with no
  payment recorded, the late fee of an agreement whose rent is \<open>2 ^ 255\<close> is not
  reported: the checked product \<open>rent * 10\<close> leaves \<open>uint256\<close> and the call reverts. The
  call reverts as well before the start date of an agreement without payments (the second
  conjunct), where the checked subtraction \<open>now - startDate\<close> underflows.
\<close>

theorem calculateOutstandingRent_counterexample:
  "agreementExists 1 (core hugeRentSystem)
   \<and> lastPaymentDate (payments hugeRentSystem) 1 = 0
   \<and> (block_timestamp (exampleEnv 20 0 (2000 + 6 * 86400))
         - startDate (agreements (core hugeRentSystem) 1)) div 86400 = 6
   \<and> calculateOutstandingRent (exampleEnv 20 0 (2000 + 6 * 86400)) 1
        (core hugeRentSystem) (payments hugeRentSystem) = Inl Panic
   \<and> agreementExists 1 (core exampleSystem)
   \<and> lastPaymentDate (payments exampleSystem) 1 = 0
   \<and> startDate (agreements (core exampleSystem) 1) = 2000
   \<and> calculateOutstandingRent (exampleEnv 20 0 1000) 1
        (core exampleSystem) (payments exampleSystem) = Inl Panic"
  by (simp add: calculateOutstandingRent_def calculateLateFees_def getAgreementDetails_def
      agreementExists_def require_def andThen_def Let_def checked_sub_def checked_mul_def
      MAX_UINT256_def SECONDS_PER_DAY_def GRACE_PERIOD_DAYS_def LATE_FEE_PERCENTAGE_def
      hugeRentSystem_def example_defs)

text \<open>
  C7 (amended). For an existing agreement let the reference date be the last payment date,
  or the start date while no payment date is recorded (the stored date is 0). When now is
  not before the reference date and at most five whole days have passed since,
  \<open>calculateOutstandingRent\<close> reports the stored outstanding balance and a late fee of 0.
  When more than five whole days have passed and \<open>rent * 10\<close> fits in \<open>uint256\<close>, it
  reports the late fee \<open>rent * 10 div 100\<close>, whatever the number of days; when the
  product does not fit, the call reverts.
\<close>

theorem calculateOutstandingRent_late_fees:
  "(agreementExists a rc
    \<and> (if lastPaymentDate pm a = 0 then startDate (agreements rc a) else lastPaymentDate pm a)
         \<le> block_timestamp e
    \<and> (block_timestamp e
         - (if lastPaymentDate pm a = 0 then startDate (agreements rc a)
            else lastPaymentDate pm a)) div 86400 \<le> 5 \<longrightarrow>
      calculateOutstandingRent e a rc pm = Inr (outstandingBalance pm a, 0))
   \<and> (agreementExists a rc
    \<and> (block_timestamp e
         - (if lastPaymentDate pm a = 0 then startDate (agreements rc a)
            else lastPaymentDate pm a)) div 86400 > 5
    \<and> rentAmount (agreements rc a) * 10 \<le> MAX_UINT256 \<longrightarrow>
      calculateOutstandingRent e a rc pm
        = Inr (outstandingBalance pm a, rentAmount (agreements rc a) * 10 div 100))
   \<and> (agreementExists a rc
    \<and> (block_timestamp e
         - (if lastPaymentDate pm a = 0 then startDate (agreements rc a)
            else lastPaymentDate pm a)) div 86400 > 5
    \<and> rentAmount (agreements rc a) * 10 > MAX_UINT256 \<longrightarrow>
      calculateOutstandingRent e a rc pm = Inl Panic)"
proof -
  let ?last = "if lastPaymentDate pm a = 0 then startDate (agreements rc a)
               else lastPaymentDate pm a"
  have started: "?last \<le> block_timestamp e" if "(block_timestamp e - ?last) div 86400 > 5"
  proof (rule ccontr)
    assume "\<not> ?last \<le> block_timestamp e"
    then have "block_timestamp e - ?last = 0" by simp
    with that show False by simp
  qed
  have fees: "calculateLateFees e a rc pm =
      andThen (checked_sub (block_timestamp e) ?last) (\<lambda>elapsed.
        if elapsed div SECONDS_PER_DAY \<le> GRACE_PERIOD_DAYS then Inr 0
        else andThen (checked_mul (rentAmount (agreements rc a)) LATE_FEE_PERCENTAGE)
               (\<lambda>fee. Inr (fee div 100)))"
    if "agreementExists a rc"
    by (simp add: calculateLateFees_def getAgreementDetails_present [OF that] andThen_Inr
        Let_def)
  have within: "calculateOutstandingRent e a rc pm = Inr (outstandingBalance pm a, 0)"
    if "agreementExists a rc" "?last \<le> block_timestamp e"
      "(block_timestamp e - ?last) div 86400 \<le> 5"
    using that(2,3)
    by (simp add: calculateOutstandingRent_def fees [OF that(1)] checked_sub_def andThen_def
        Let_def SECONDS_PER_DAY_def GRACE_PERIOD_DAYS_def LATE_FEE_PERCENTAGE_def)
  have late: "calculateOutstandingRent e a rc pm
        = Inr (outstandingBalance pm a, rentAmount (agreements rc a) * 10 div 100)"
    if "agreementExists a rc" "(block_timestamp e - ?last) div 86400 > 5"
      "rentAmount (agreements rc a) * 10 \<le> MAX_UINT256"
    using that(2,3) started [OF that(2)]
    by (simp add: calculateOutstandingRent_def fees [OF that(1)] checked_sub_def
        checked_mul_def andThen_def Let_def SECONDS_PER_DAY_def GRACE_PERIOD_DAYS_def
        LATE_FEE_PERCENTAGE_def)
  have overflow: "calculateOutstandingRent e a rc pm = Inl Panic"
    if "agreementExists a rc" "(block_timestamp e - ?last) div 86400 > 5"
      "rentAmount (agreements rc a) * 10 > MAX_UINT256"
    using that(2,3) started [OF that(2)]
    by (simp add: calculateOutstandingRent_def fees [OF that(1)] checked_sub_def
        checked_mul_def andThen_def Let_def SECONDS_PER_DAY_def GRACE_PERIOD_DAYS_def
        LATE_FEE_PERCENTAGE_def)
  show ?thesis
    using within late overflow by blast
qed

theorem calculateOutstandingRent_late_fees_witness:
  "agreementExists 1 (core exampleSystem)
   \<and> lastPaymentDate (payments exampleSystem) 1 = 0
   \<and> startDate (agreements (core exampleSystem) 1) = 2000
   \<and> calculateOutstandingRent (exampleEnv 20 0 (2000 + 5 * 86400 + 86399)) 1
        (core exampleSystem) (payments exampleSystem) = Inr (0, 0)
   \<and> calculateOutstandingRent (exampleEnv 20 0 (2000 + 6 * 86400)) 1
        (core exampleSystem) (payments exampleSystem) = Inr (0, 100)
   \<and> calculateOutstandingRent (exampleEnv 20 0 (2000 + 400 * 86400)) 1
        (core exampleSystem) (payments exampleSystem) = Inr (0, 100)"
  using calculateOutstandingRent_late_fees
      [where a = 1 and rc = "core exampleSystem" and pm = "payments exampleSystem"
         and e = "exampleEnv 20 0 (2000 + 5 * 86400 + 86399)"]
    calculateOutstandingRent_late_fees
      [where a = 1 and rc = "core exampleSystem" and pm = "payments exampleSystem"
         and e = "exampleEnv 20 0 (2000 + 6 * 86400)"]
    calculateOutstandingRent_late_fees
      [where a = 1 and rc = "core exampleSystem" and pm = "payments exampleSystem"
         and e = "exampleEnv 20 0 (2000 + 400 * 86400)"]
  by (simp add: agreementExists_def example_defs MAX_UINT256_def)
section \<open>Rental period validation\<close>

text \<open>
  C9. For every pair of dates, \<open>validateRentalPeriod\<close> returns (true, 0) exactly when
  the end date is after the start date and the duration in whole days,
  \<open>(endDate - startDate) div 86400\<close>, lies between 30 and 3650 inclusive; it returns
  (false, 1) when the start date is not before the end date, (false, 2) when the
  duration is below 30 days and (false, 3) when it is above 3650 days.
\<close>

theorem validateRentalPeriod_classification:
  "(validateRentalPeriod sd ed = (True, 0) \<longleftrightarrow>
      ed > sd \<and> 30 \<le> (ed - sd) div 86400
        \<and> (ed - sd) div 86400 \<le> 3650)
   \<and> (sd \<ge> ed \<longrightarrow> validateRentalPeriod sd ed = (False, 1))
   \<and> (ed > sd \<and> (ed - sd) div 86400 < 30
        \<longrightarrow> validateRentalPeriod sd ed = (False, 2))
   \<and> (ed > sd \<and> (ed - sd) div 86400 > 3650
        \<longrightarrow> validateRentalPeriod sd ed = (False, 3))"
  by (simp add: validateRentalPeriod_def Let_def SECONDS_PER_DAY_def
      MIN_RENTAL_PERIOD_DAYS_def MAX_RENTAL_PERIOD_YEARS_def DAYS_PER_YEAR_def)

theorem validateRentalPeriod_classification_witness:
  "validateRentalPeriod 1000 (1000 + 365 * 86400) = (True, 0)
   \<and> validateRentalPeriod 2000 1000 = (False, 1)
   \<and> validateRentalPeriod 1000 (1000 + 20 * 86400) = (False, 2)
   \<and> validateRentalPeriod 1000 (1000 + 4015 * 86400) = (False, 3)"
  using validateRentalPeriod_classification [of 1000 "1000 + 365 * 86400"]
    validateRentalPeriod_classification [of 2000 1000]
    validateRentalPeriod_classification [of 1000 "1000 + 20 * 86400"]
    validateRentalPeriod_classification [of 1000 "1000 + 4015 * 86400"]
  by simp


section \<open>The statutory late fee of the utility library\<close>

text \<open>
  C8 (as stated, refuted). The claim gives \<open>calculateLateFee\<close> a grace period of five
  days. The function has none: five days late on an amount of 1000 are charged a fee
  that is not zero.
\<close>

theorem calculateLateFee_grace_counterexample:
  "calculateLateFee 1000 5 = Inr 162 \<and> calculateLateFee 1000 5 \<noteq> Inr 0"
  by (simp add: calculateLateFee_def andThen_def checked_mul_def MAX_UINT256_def)

text \<open>
  C8 (amended). \<open>calculateLateFee\<close> equals the exact integer formula
  \<open>amount * 1185 * daysLate div 36500\<close> (\<open>1185\<close> is the constant that the source names
  the 11.85% annual statutory rate; the fee accrues per day, flat per assessment) for
  every number of days late: there is no grace period, the formula applies to the first
  five days as to any other. This holds whenever the two checked products
  \<open>amount * 1185\<close> and \<open>amount * 1185 * daysLate\<close> stay within \<open>uint256\<close>; when one of
  them does not, the call reverts. In particular zero days late cost nothing, and
  \<open>calculateLateFee 1000 10\<close> is \<open>1000 * 1185 * 10 div 36500\<close>.
\<close>

theorem calculateLateFee_formula:
  "(amt * 1185 \<le> MAX_UINT256 \<and> amt * 1185 * days \<le> MAX_UINT256
      \<longrightarrow> calculateLateFee amt days = Inr (amt * 1185 * days div 36500))
   \<and> (amt * 1185 > MAX_UINT256 \<or> amt * 1185 * days > MAX_UINT256
      \<longrightarrow> calculateLateFee amt days = Inl Panic)
   \<and> (amt * 1185 \<le> MAX_UINT256 \<longrightarrow> calculateLateFee amt 0 = Inr 0)
   \<and> calculateLateFee 1000 10 = Inr (1000 * 1185 * 10 div 36500)"
proof -
  have fits: "calculateLateFee amt days = Inr (amt * 1185 * days div 36500)"
    if "amt * 1185 \<le> MAX_UINT256" "amt * 1185 * days \<le> MAX_UINT256"
    using that by (simp add: calculateLateFee_def andThen_def checked_mul_def)
  have first_overflows: "calculateLateFee amt days = Inl Panic"
    if "amt * 1185 > MAX_UINT256"
    using that by (simp add: calculateLateFee_def andThen_def checked_mul_def)
  have second_overflows: "calculateLateFee amt days = Inl Panic"
    if "amt * 1185 * days > MAX_UINT256"
  proof (cases "amt * 1185 \<le> MAX_UINT256")
    case True
    with that show ?thesis
      by (simp add: calculateLateFee_def andThen_def checked_mul_def)
  next
    case False
    then show ?thesis using first_overflows by simp
  qed
  have zero_days: "calculateLateFee amt 0 = Inr 0" if "amt * 1185 \<le> MAX_UINT256"
    using that by (simp add: calculateLateFee_def andThen_def checked_mul_def)
  have ten_days: "calculateLateFee 1000 10 = Inr (1000 * 1185 * 10 div 36500)"
    by (simp add: calculateLateFee_def andThen_def checked_mul_def MAX_UINT256_def)
  show ?thesis
    using fits first_overflows second_overflows zero_days ten_days by blast
qed

theorem calculateLateFee_formula_witness:
  "(2000::nat) * 1185 \<le> MAX_UINT256 \<and> (2000::nat) * 1185 * 3 \<le> MAX_UINT256
   \<and> calculateLateFee 2000 3 = Inr (2000 * 1185 * 3 div 36500)
   \<and> calculateLateFee 2000 3 \<noteq> Inr 0
   \<and> calculateLateFee 2000 0 = Inr 0
   \<and> (2 ^ 250 :: nat) * 1185 > MAX_UINT256
   \<and> calculateLateFee (2 ^ 250) 1 = Inl Panic
   \<and> (2 ^ 240 :: nat) * 1185 \<le> MAX_UINT256 \<and> (2 ^ 240 :: nat) * 1185 * 2 ^ 16 > MAX_UINT256
   \<and> calculateLateFee (2 ^ 240) (2 ^ 16) = Inl Panic"
  using calculateLateFee_formula [of 2000 3] calculateLateFee_formula [of 2000 0]
    calculateLateFee_formula [of "2 ^ 250" 1] calculateLateFee_formula [of "2 ^ 240" "2 ^ 16"]
  by (simp add: MAX_UINT256_def)

section \<open>The owner of a property\<close>

text \<open>
  C10 (as stated, refuted). The system has no operation that transfers a property: in the
  example system, where account 10 owns property 1, no call of account 10, whatever its
  context and arguments, makes account 30 the owner.
\<close>

theorem transferOwnership_counterexample:
  "owner (properties (core exampleSystem) 1) = 10
   \<and> \<not> (\<exists>e c. msg_sender e = 10
              \<and> owner (properties (core (step (e, c) exampleSystem)) 1) = 30)"
proof -
  have h: "(1::nat) \<le> propertyIds (core exampleSystem)"
    "propertyIds (core exampleSystem) < 2 ^ 256 - 1"
    "owner (properties (core exampleSystem) 1) = 10"
    by (simp_all add: example_defs)
  have "owner (properties (core (step c exampleSystem)) 1) = 10" for c
    using step_owner(1) [OF h(1,2), of c] h(3) by simp
  then show ?thesis using h(3) by simp
qed

text \<open>
  C10 (amended). The contracts offer no \<open>transferOwnership\<close>. The owner of a property is
  written once, by \<open>registerProperty\<close>, for the id it allocates: along every trace of
  calls, the owner of a property whose id has been allocated stays what it is, and the
  agreement history of the property is only appended to, as long as the id counter does
  not wrap.
\<close>

theorem property_owner_never_changes:
  "p \<le> propertyIds (core sys) \<and> propertyIds (core sys) + length cs < 2 ^ 256 \<longrightarrow>
     owner (properties (core (run cs sys)) p) = owner (properties (core sys) p)
     \<and> (\<exists>ids. agreementHistory (properties (core (run cs sys)) p)
               = agreementHistory (properties (core sys) p) @ ids)"
  using run_owner [of p sys cs] by blast

theorem property_owner_never_changes_witness:
  "1 \<le> propertyIds (core exampleSystem)
   \<and> propertyIds (core exampleSystem) + length mixedTrace < 2 ^ 256
   \<and> owner (properties (core exampleSystem) 1) = 10
   \<and> owner (properties (core (run mixedTrace exampleSystem)) 1) = 10"
  using property_owner_never_changes [where p = 1 and sys = exampleSystem and cs = mixedTrace]
  by (simp add: mixedTrace_def example_defs)

end
